theory Spec2Isabelle
  imports Complex_Main "HOL-Library.Product_Lexorder"
begin

section \<open>Python values and built-ins used by the program\<close>

text \<open>
  The program is Python. A Python \<open>str\<close> is the list of its Unicode code points (type
  \<open>str\<close>), so that length, slicing and case mapping count what Python counts; \<open>lit\<close> gives
  the str of an ASCII literal. A \<open>bytes\<close> value is a list of 8-bit characters. The
  dynamically typed data of the program (provider responses, webhook payloads, message
  dictionaries) is modelled by the JSON values it is decoded from; Python's \<open>None\<close> is
  \<open>JNull\<close>, and \<open>JObj\<close> lists the items of a dict, each key once. A Python \<open>float\<close> is
  modelled by the real number it denotes (comparisons against the integer thresholds of the
  program are exact on floats; rounding of products, NaN and the infinities are not
  represented). Every exception is a value of \<open>py_error\<close>.
\<close>

type_synonym str = "nat list"

type_synonym bytes = string

definition lit :: "string \<Rightarrow> str" where
  \<comment> \<open>the str written as an ASCII literal in the source\<close>
  "lit s = map of_char s"

datatype py_error =
    AttributeError | IndexError | KeyError | TypeError | ValueError | OverflowError
  | JSONDecodeError | UnicodeDecodeError
  | UpstreamError str
  | HTTPException nat str

datatype json =
    JNull | JBool bool | JInt int | JFloat real | JStr str
  | JArr "json list" | JObj "(str \<times> json) list"

definition and_then :: "'e + 'a \<Rightarrow> ('a \<Rightarrow> 'e + 'b) \<Rightarrow> 'e + 'b" where
  \<comment> \<open>sequencing of statements that may raise: the first exception wins\<close>
  "and_then m f = (case m of Inl e \<Rightarrow> Inl e | Inr x \<Rightarrow> f x)"

fun py_get :: "json \<Rightarrow> str \<Rightarrow> json \<Rightarrow> py_error + json" where
  \<comment> \<open>\<open>obj.get(key, default)\<close>: only a dict has the method\<close>
  "py_get (JObj kvs) k d = Inr (case map_of kvs k of Some v \<Rightarrow> v | None \<Rightarrow> d)"
| "py_get _ k d = Inl AttributeError"

fun py_item0 :: "json \<Rightarrow> py_error + json" where
  \<comment> \<open>\<open>obj[0]\<close>\<close>
  "py_item0 (JArr []) = Inl IndexError"
| "py_item0 (JArr (x # xs)) = Inr x"
| "py_item0 (JStr []) = Inl IndexError"
| "py_item0 (JStr (c # cs)) = Inr (JStr [c])"
| "py_item0 (JObj kvs) = Inl KeyError"
| "py_item0 _ = Inl TypeError"

fun py_item_last :: "json \<Rightarrow> py_error + json" where
  \<comment> \<open>\<open>obj[-1]\<close>\<close>
  "py_item_last (JArr []) = Inl IndexError"
| "py_item_last (JArr (x # xs)) = Inr (last (x # xs))"
| "py_item_last (JStr []) = Inl IndexError"
| "py_item_last (JStr (c # cs)) = Inr (JStr [last (c # cs)])"
| "py_item_last (JObj kvs) = Inl KeyError"
| "py_item_last _ = Inl TypeError"

fun py_truthy :: "json \<Rightarrow> bool" where
  "py_truthy JNull = False"
| "py_truthy (JBool b) = b"
| "py_truthy (JInt i) = (i \<noteq> 0)"
| "py_truthy (JFloat r) = (r \<noteq> 0)"
| "py_truthy (JStr s) = (s \<noteq> [])"
| "py_truthy (JArr xs) = (xs \<noteq> [])"
| "py_truthy (JObj kvs) = (kvs \<noteq> [])"

fun py_len :: "json \<Rightarrow> py_error + int" where
  "py_len (JStr s) = Inr (int (length s))"
| "py_len (JArr xs) = Inr (int (length xs))"
| "py_len (JObj kvs) = Inr (int (length kvs))"
| "py_len _ = Inl TypeError"

fun py_iter :: "json \<Rightarrow> py_error + json list" where
  \<comment> \<open>the items a \<open>for\<close> loop visits: list elements, characters, dict keys\<close>
  "py_iter (JArr xs) = Inr xs"
| "py_iter (JStr s) = Inr (map (\<lambda>c. JStr [c]) s)"
| "py_iter (JObj kvs) = Inr (map (\<lambda>kv. JStr (fst kv)) kvs)"
| "py_iter _ = Inl TypeError"

definition py_int :: "real \<Rightarrow> int" where
  \<comment> \<open>\<open>int(x)\<close> on a float: truncation toward zero\<close>
  "py_int x = (if 0 \<le> x then \<lfloor>x\<rfloor> else \<lceil>x\<rceil>)"

definition py_slice_upto :: "int \<Rightarrow> 'a list \<Rightarrow> 'a list" where
  \<comment> \<open>\<open>xs[:n]\<close>: a negative bound counts from the end\<close>
  "py_slice_upto n xs =
     (if 0 \<le> n then take (nat n) xs else take (length xs - nat (- n)) xs)"

record externals =
  float_of_str :: "str \<Rightarrow> real option"
    \<comment> \<open>\<open>float(s)\<close> on a str; \<open>None\<close> when it raises ValueError\<close>
  str_of :: "json \<Rightarrow> str"
    \<comment> \<open>how an f-string renders a value that is not a str\<close>
  strptime_days :: "str \<Rightarrow> str \<Rightarrow> int option"
    \<comment> \<open>\<open>(strptime(b) - strptime(a)).days\<close>; \<open>None\<close> when a date does not parse\<close>
  unicode_lower :: "str \<Rightarrow> str"
    \<comment> \<open>\<open>s.lower()\<close> for a str that has a character beyond Latin-1\<close>
  unicode_upper :: "str \<Rightarrow> str"
    \<comment> \<open>\<open>s.upper()\<close> for a str that has a character beyond Latin-1\<close>
  unicode_title :: "str \<Rightarrow> str"
    \<comment> \<open>\<open>s.title()\<close> for a str that has a character beyond Latin-1\<close>
  flight_display_error :: "json \<Rightarrow> py_error option"
    \<comment> \<open>the exception, if any, raised while the display-only fields of a flight offer
        (times, duration, airline name, deep link) are built\<close>
  hotel_display_error :: "json \<Rightarrow> py_error option"
    \<comment> \<open>the same for the display-only fields of a hotel offer (room type, coordinates)\<close>
  curated_display_error :: "json \<Rightarrow> py_error option"
    \<comment> \<open>the same for a curated hotel record (thumbnail URL)\<close>

text \<open>Case mapping is Python's. On a str whose characters are all in Latin-1 (code points
  below 256) it is written out: lower case adds 32 to A-Z and to the accented capitals,
  upper case does the reverse and sends the sharp s to SS, the y with diaeresis to U+0178
  and the micro sign to U+039C, and title case upper-cases a character that does not follow
  a cased one and lower-cases the others. On any other str it is the library's, taken as a
  parameter.\<close>

definition latin1 :: "str \<Rightarrow> bool" where
  "latin1 s = list_all (\<lambda>c. c < 256) s"

definition lower_cp :: "nat \<Rightarrow> nat" where
  "lower_cp c =
     (if (65 \<le> c \<and> c \<le> 90) \<or> (192 \<le> c \<and> c \<le> 214) \<or> (216 \<le> c \<and> c \<le> 222)
      then c + 32 else c)"

definition upper_cp :: "nat \<Rightarrow> str" where
  "upper_cp c =
     (if (97 \<le> c \<and> c \<le> 122) \<or> (224 \<le> c \<and> c \<le> 246) \<or> (248 \<le> c \<and> c \<le> 254)
      then [c - 32]
      else if c = 181 then [924]
      else if c = 223 then [83, 83]
      else if c = 255 then [376]
      else [c])"

definition title_cp :: "nat \<Rightarrow> str" where
  "title_cp c = (if c = 223 then [83, 115] else upper_cp c)"

definition is_cased :: "nat \<Rightarrow> bool" where
  "is_cased c =
     ((65 \<le> c \<and> c \<le> 90) \<or> (97 \<le> c \<and> c \<le> 122) \<or> c = 170 \<or> c = 181 \<or> c = 186
      \<or> (192 \<le> c \<and> c \<le> 214) \<or> (216 \<le> c \<and> c \<le> 246) \<or> (248 \<le> c \<and> c \<le> 255))"

fun title_from :: "bool \<Rightarrow> str \<Rightarrow> str" where
  \<comment> \<open>\<open>str.title()\<close>, with whether the previous character is cased\<close>
  "title_from previous_is_cased [] = []"
| "title_from previous_is_cased (c # cs) =
     (if previous_is_cased then [lower_cp c] else title_cp c) @ title_from (is_cased c) cs"

definition py_lower :: "externals \<Rightarrow> str \<Rightarrow> str" where
  "py_lower ext s = (if latin1 s then map lower_cp s else unicode_lower ext s)"

definition py_upper :: "externals \<Rightarrow> str \<Rightarrow> str" where
  "py_upper ext s = (if latin1 s then concat (map upper_cp s) else unicode_upper ext s)"

definition py_title :: "externals \<Rightarrow> str \<Rightarrow> str" where
  "py_title ext s = (if latin1 s then title_from False s else unicode_title ext s)"

definition py_isspace :: "nat \<Rightarrow> bool" where
  \<comment> \<open>the characters \<open>str.strip()\<close> removes\<close>
  "py_isspace c =
     (c \<in> set [9, 10, 11, 12, 13, 28, 29, 30, 31, 32, 133, 160, 5760,
                8192, 8193, 8194, 8195, 8196, 8197, 8198, 8199, 8200, 8201, 8202,
                8232, 8233, 8239, 8287, 12288])"

definition py_strip :: "str \<Rightarrow> str" where
  "py_strip s = rev (dropWhile py_isspace (rev (dropWhile py_isspace s)))"

definition float_limit :: int where
  \<comment> \<open>the least integer that \<open>float\<close> cannot convert: halfway between the largest double
      and \<open>2 ^ 1024\<close>\<close>
  "float_limit = 2 ^ 1024 - 2 ^ 970"

definition py_float :: "externals \<Rightarrow> json \<Rightarrow> py_error + real" where
  \<comment> \<open>\<open>float(v)\<close>\<close>
  "py_float ext v =
     (case v of
        JInt i \<Rightarrow> (if \<bar>i\<bar> < float_limit then Inr (real_of_int i) else Inl OverflowError)
      | JFloat r \<Rightarrow> Inr r
      | JBool b \<Rightarrow> Inr (if b then 1 else 0)
      | JStr s \<Rightarrow> (case float_of_str ext s of None \<Rightarrow> Inl ValueError | Some r \<Rightarrow> Inr r)
      | _ \<Rightarrow> Inl TypeError)"

definition py_format :: "externals \<Rightarrow> json \<Rightarrow> str" where
  \<comment> \<open>\<open>f"{v}"\<close>: a str is inserted as it is\<close>
  "py_format ext v = (case v of JStr s \<Rightarrow> s | _ \<Rightarrow> str_of ext v)"

section \<open>Flight widget (src/tools/widgets/flight_widget.py)\<close>

datatype CabinClass = ECONOMY | PREMIUM_ECONOMY | BUSINESS | FIRST

definition cabin_value :: "CabinClass \<Rightarrow> str" where
  "cabin_value c = (case c of ECONOMY \<Rightarrow> (lit ''ECONOMY'') | PREMIUM_ECONOMY \<Rightarrow> (lit ''PREMIUM_ECONOMY'')
                    | BUSINESS \<Rightarrow> (lit ''BUSINESS'') | FIRST \<Rightarrow> (lit ''FIRST''))"

datatype DealUrgency = LOW | MEDIUM | HIGH | CRITICAL

definition urgency_value :: "DealUrgency \<Rightarrow> str" where
  "urgency_value u = (case u of LOW \<Rightarrow> (lit ''low'') | MEDIUM \<Rightarrow> (lit ''medium'')
                      | HIGH \<Rightarrow> (lit ''high'') | CRITICAL \<Rightarrow> (lit ''critical''))"

text \<open>Fields of \<open>FlightSearchParams\<close> carry the prefix \<open>fp_\<close>, those of \<open>FlightDeal\<close> the
  prefix \<open>f_\<close>. The display-only fields of a deal (route_display, currency, airline,
  airline_name, the dates and times, duration, deep_link, booking_url, image_url) are left
  out; \<open>expires_at\<close>, which is the clock plus a number of hours, is kept as that number.\<close>

record FlightSearchParams =
  fp_origin :: str
  fp_destination :: str
  fp_departure_date :: str
  fp_return_date :: "str option"
  fp_adults :: int
  fp_cabin_class :: CabinClass
  fp_max_results :: int
  fp_max_price :: "real option"

record FlightDeal =
  f_id :: str
  f_origin :: str
  f_destination :: str
  f_price :: real
  f_original_price :: "real option"
  f_cabin_class :: str
  f_stops :: int
  f_deal_score :: int
  f_savings_percent :: "int option"
  f_urgency :: DealUrgency
  f_expires_in_hours :: "nat option"
  f_is_mistake_fare :: bool
  f_source :: str

record price_thresholds =
  excellent :: real
  good :: real
  average :: real

definition thresholds :: "CabinClass \<Rightarrow> price_thresholds" where
  "thresholds cabin =
     (case cabin of
        BUSINESS \<Rightarrow> \<lparr>excellent = 2000, good = 3000, average = 4500\<rparr>
      | FIRST \<Rightarrow> \<lparr>excellent = 4000, good = 6000, average = 9000\<rparr>
      | ECONOMY \<Rightarrow> \<lparr>excellent = 400, good = 600, average = 900\<rparr>
      | PREMIUM_ECONOMY \<Rightarrow> \<lparr>excellent = 800, good = 1200, average = 1800\<rparr>)"

definition flight_calculate_deal_score :: "real \<Rightarrow> CabinClass \<Rightarrow> int \<Rightarrow> int" where
  \<comment> \<open>\<open>FlightWidget._calculate_deal_score\<close>\<close>
  "flight_calculate_deal_score price cabin stops =
     (let t = thresholds cabin;
          base_score = (if price \<le> excellent t then 9
                        else if price \<le> good t then 7
                        else if price \<le> average t then 5
                        else (3::real));
          base_score = base_score - real_of_int stops * 0.5
      in max 1 (min 10 (py_int base_score)))"

definition flight_determine_urgency :: "int \<Rightarrow> real \<Rightarrow> DealUrgency" where
  \<comment> \<open>\<open>FlightWidget._determine_urgency\<close>\<close>
  "flight_determine_urgency deal_score price =
     (if deal_score \<ge> 9 then CRITICAL
      else if deal_score \<ge> 7 then HIGH
      else if deal_score \<ge> 5 then MEDIUM
      else LOW)"

text \<open>The deal score as the specification words it (section 4.3): the base score from the
  threshold table, minus half a point per stop, clamped to [1,10], then truncated.\<close>

definition spec_flight_base_score :: "real \<Rightarrow> CabinClass \<Rightarrow> real" where
  "spec_flight_base_score price cabin =
     (case cabin of
        ECONOMY \<Rightarrow> (if price \<le> 400 then 9 else if price \<le> 600 then 7
                     else if price \<le> 900 then 5 else 3)
      | PREMIUM_ECONOMY \<Rightarrow> (if price \<le> 800 then 9 else if price \<le> 1200 then 7
                     else if price \<le> 1800 then 5 else 3)
      | BUSINESS \<Rightarrow> (if price \<le> 2000 then 9 else if price \<le> 3000 then 7
                     else if price \<le> 4500 then 5 else 3)
      | FIRST \<Rightarrow> (if price \<le> 4000 then 9 else if price \<le> 6000 then 7
                     else if price \<le> 9000 then 5 else 3))"

definition spec_flight_deal_score :: "real \<Rightarrow> CabinClass \<Rightarrow> int \<Rightarrow> int" where
  "spec_flight_deal_score price cabin stops =
     py_int (max 1 (min 10 (spec_flight_base_score price cabin - 0.5 * real_of_int stops)))"

definition parse_amadeus_offer ::
  "externals \<Rightarrow> FlightSearchParams \<Rightarrow> json \<Rightarrow> py_error + FlightDeal" where
  \<comment> \<open>the body of the \<open>try\<close> in \<open>FlightWidget._parse_amadeus_results\<close>, for one offer\<close>
  "parse_amadeus_offer ext params offer =
     and_then (py_get offer (lit ''price'') (JObj [])) (\<lambda>price_info.
     and_then (py_get price_info (lit ''total'') (JInt 0)) (\<lambda>total.
     and_then (py_float ext total) (\<lambda>price.
     and_then (py_get offer (lit ''itineraries'') (JArr [JObj []])) (\<lambda>itineraries.
     and_then (py_item0 itineraries) (\<lambda>itinerary.
     and_then (py_get itinerary (lit ''segments'') (JArr [JObj []])) (\<lambda>segments.
     and_then (if py_truthy segments then py_item0 segments else Inr (JObj [])) (\<lambda>first_segment.
     and_then (if py_truthy segments then py_item_last segments else Inr first_segment)
       (\<lambda>last_segment.
     and_then (py_get first_segment (lit ''carrierCode'') (JStr (lit ''XX''))) (\<lambda>airline.
     and_then (py_len segments) (\<lambda>n_segments.
     and_then (py_get offer (lit ''id'') (JStr [])) (\<lambda>offer_id.
       case flight_display_error ext offer of
         Some e \<Rightarrow> Inl e
       | None \<Rightarrow>
          (let deal_score =
                 flight_calculate_deal_score price (fp_cabin_class params) (n_segments - 1);
               urgency = flight_determine_urgency deal_score price
           in Inr \<lparr>f_id = (lit ''amadeus_'') @ py_format ext offer_id,
                    f_origin = fp_origin params,
                    f_destination = fp_destination params,
                    f_price = price,
                    f_original_price = (if deal_score \<ge> 7 then Some (price * 1.35) else None),
                    f_cabin_class = cabin_value (fp_cabin_class params),
                    f_stops = n_segments - 1,
                    f_deal_score = deal_score,
                    f_savings_percent = (if deal_score \<ge> 7 then Some 26 else None),
                    f_urgency = urgency,
                    f_expires_in_hours = (if deal_score \<ge> 8 then Some 12 else None),
                    f_is_mistake_fare = (deal_score \<ge> 9),
                    f_source = (lit ''amadeus'')\<rparr>))))))))))))"

fun parse_amadeus_offers ::
  "externals \<Rightarrow> FlightSearchParams \<Rightarrow> json list \<Rightarrow> FlightDeal list" where
  \<comment> \<open>the loop of \<open>_parse_amadeus_results\<close>: an offer that raises is logged and skipped\<close>
  "parse_amadeus_offers ext params [] = []"
| "parse_amadeus_offers ext params (offer # rest) =
     (case parse_amadeus_offer ext params offer of
        Inl e \<Rightarrow> parse_amadeus_offers ext params rest
      | Inr deal \<Rightarrow> deal # parse_amadeus_offers ext params rest)"

definition flight_parse_amadeus_results ::
  "externals \<Rightarrow> json \<Rightarrow> FlightSearchParams \<Rightarrow> py_error + FlightDeal list" where
  \<comment> \<open>\<open>FlightWidget._parse_amadeus_results\<close>; iterating a value that is not iterable raises\<close>
  "flight_parse_amadeus_results ext results params =
     and_then (py_iter results) (\<lambda>offers. Inr (parse_amadeus_offers ext params offers))"

definition mock_routes :: "((str \<times> str) \<times> int) list" where
  \<comment> \<open>the representative price of each route of \<open>mock_routes\<close> (airline, name and
      duration are display-only)\<close>
  "mock_routes =
     [(((lit ''JFK''), (lit ''CDG'')), 1847),
      (((lit ''JFK''), (lit ''LHR'')), 2150),
      (((lit ''LAX''), (lit ''NRT'')), 2890),
      (((lit ''LAX''), (lit ''HND'')), 2750),
      (((lit ''SFO''), (lit ''HND'')), 2650),
      (((lit ''MIA''), (lit ''LHR'')), 2350),
      (((lit ''JFK''), (lit ''DXB'')), 3200)]"

definition get_mock_deals ::
  "externals \<Rightarrow> int \<Rightarrow> FlightSearchParams \<Rightarrow> FlightDeal list" where
  \<comment> \<open>\<open>FlightWidget._get_mock_deals\<close>; \<open>jitter\<close> is the value \<open>random.randint(-200, 200)\<close>
      returned\<close>
  "get_mock_deals ext jitter params =
     (let route_key = (py_upper ext (fp_origin params), py_upper ext (fp_destination params));
          base_price = (case map_of mock_routes route_key of Some p \<Rightarrow> p | None \<Rightarrow> 2500);
          price = base_price + jitter
      in [\<lparr>f_id = (lit ''amadeus_'') @ fp_origin params @ (lit ''_'') @ fp_destination params,
            f_origin = fp_origin params,
            f_destination = fp_destination params,
            f_price = real_of_int price,
            f_original_price = Some (real_of_int (py_int (real_of_int price * 1.35))),
            f_cabin_class = cabin_value (fp_cabin_class params),
            f_stops = 0,
            f_deal_score = 8,
            f_savings_percent = Some 26,
            f_urgency = HIGH,
            f_expires_in_hours = Some 6,
            f_is_mistake_fare = False,
            f_source = (lit ''amadeus'')\<rparr>])"

definition create_mock_deal :: FlightDeal where
  \<comment> \<open>\<open>FlightWidget._create_mock_deal\<close>, the deal \<open>get_widget_data\<close> shows when no route
      gave one\<close>
  "create_mock_deal =
     \<lparr>f_id = lit ''amadeus_JFK_CDG'',
      f_origin = lit ''JFK'',
      f_destination = lit ''CDG'',
      f_price = 1847,
      f_original_price = Some 2497,
      f_cabin_class = lit ''BUSINESS'',
      f_stops = 0,
      f_deal_score = 8,
      f_savings_percent = Some 26,
      f_urgency = HIGH,
      f_expires_in_hours = Some 6,
      f_is_mistake_fare = False,
      f_source = lit ''amadeus''\<rparr>"

text \<open>The widget holds the provider client, or \<open>None\<close> when the credentials are not in
  the environment. The client is modelled by the outcome of its one awaited call: the
  exception it raises, or the \<open>data\<close> value of the response.\<close>

record FlightWidget =
  fw_amadeus :: "(FlightSearchParams \<Rightarrow> py_error + json) option"

definition flight_sort_key :: "FlightDeal \<Rightarrow> int \<times> real" where
  "flight_sort_key d = (- f_deal_score d, f_price d)"

definition amadeus_flight_deals ::
  "externals \<Rightarrow> FlightWidget \<Rightarrow> FlightSearchParams \<Rightarrow> FlightDeal list" where
  \<comment> \<open>\<open>deals\<close> after the \<open>if self.amadeus: try: ... except\<close> block of \<open>search_flights\<close>\<close>
  "amadeus_flight_deals ext self params =
     (case fw_amadeus self of
        None \<Rightarrow> []
      | Some client \<Rightarrow>
          (case and_then (client params)
                  (\<lambda>results. flight_parse_amadeus_results ext results params) of
             Inl e \<Rightarrow> []
           | Inr parsed \<Rightarrow> parsed))"

definition search_flights ::
  "externals \<Rightarrow> FlightWidget \<Rightarrow> int \<Rightarrow> FlightSearchParams \<Rightarrow> FlightDeal list" where
  \<comment> \<open>\<open>FlightWidget.search_flights\<close>\<close>
  "search_flights ext self jitter params =
     (let deals = amadeus_flight_deals ext self params;
          deals = (if deals = [] then get_mock_deals ext jitter params else deals);
          deals = sort_key flight_sort_key deals
      in py_slice_upto (fp_max_results params) deals)"

section \<open>Hotel widget (src/tools/widgets/hotel_widget.py)\<close>

datatype HotelCategory = LUXURY | BOUTIQUE | RESORT | BUSINESS_HOTEL | ALL_CATEGORIES

definition HotelCategory_of :: "json \<Rightarrow> py_error + HotelCategory" where
  \<comment> \<open>\<open>HotelCategory(value)\<close>: ValueError unless the value is one of the enum's strings\<close>
  "HotelCategory_of v =
     (if v = JStr (lit ''luxury'') then Inr LUXURY
      else if v = JStr (lit ''boutique'') then Inr BOUTIQUE
      else if v = JStr (lit ''resort'') then Inr RESORT
      else if v = JStr (lit ''business'') then Inr BUSINESS_HOTEL
      else if v = JStr (lit ''all'') then Inr ALL_CATEGORIES
      else Inl ValueError)"

datatype UrgencyLevel = UL_LOW | UL_MEDIUM | UL_HIGH | UL_CRITICAL

text \<open>Fields of \<open>HotelSearchParams\<close> carry the prefix \<open>hp_\<close>, those of \<open>HotelResult\<close> the
  prefix \<open>h_\<close>. A hotel's name, original price and savings percent are whatever value the
  provider or the curated record holds, so they are JSON values (\<open>JNull\<close> is \<open>None\<close>).
  The display-only fields of a result (brand, location, city, country, review_count,
  currency, star_rating, the image URLs, amenities, highlights, room_type, deep_link,
  booking_url, coordinates) are left out.\<close>

record HotelSearchParams =
  hp_location :: str
  hp_check_in :: str
  hp_check_out :: str
  hp_guests :: int
  hp_rooms :: int
  hp_min_rating :: real
  hp_max_price :: "real option"
  hp_category :: HotelCategory
  hp_amenities :: "str list option"

record HotelResult =
  h_id :: str
  h_name :: json
  h_rating :: real
  h_price_per_night :: real
  h_original_price :: json
  h_total_price :: real
  h_category :: HotelCategory
  h_deal_score :: int
  h_savings_percent :: json
  h_urgency :: UrgencyLevel
  h_source :: str

definition calculate_nights :: "externals \<Rightarrow> str \<Rightarrow> str \<Rightarrow> int" where
  \<comment> \<open>\<open>HotelWidget._calculate_nights\<close>: the bare \<open>except\<close> turns every failure into 1\<close>
  "calculate_nights ext check_in check_out =
     (case strptime_days ext check_in check_out of
        Some days \<Rightarrow> max 1 days
      | None \<Rightarrow> 1)"

definition hotel_calculate_deal_score :: "real \<Rightarrow> real \<Rightarrow> int" where
  \<comment> \<open>\<open>HotelWidget._calculate_deal_score\<close>\<close>
  "hotel_calculate_deal_score price rating =
     (let price_score = (if price \<le> 300 then 9
                         else if price \<le> 500 then 7
                         else if price \<le> 800 then 5
                         else (3::real));
          rating_bonus = (if rating \<ge> 4.0 then (rating - 4.0) * 2 else 0)
      in max 1 (min 10 (py_int (price_score + rating_bonus))))"

definition hotel_determine_urgency :: "int \<Rightarrow> UrgencyLevel" where
  \<comment> \<open>\<open>HotelWidget._determine_urgency\<close>\<close>
  "hotel_determine_urgency deal_score =
     (if deal_score \<ge> 9 then UL_CRITICAL
      else if deal_score \<ge> 7 then UL_HIGH
      else if deal_score \<ge> 5 then UL_MEDIUM
      else UL_LOW)"

definition parse_amadeus_hotel ::
  "externals \<Rightarrow> HotelSearchParams \<Rightarrow> json \<Rightarrow> py_error + HotelResult" where
  \<comment> \<open>the body of the \<open>try\<close> in \<open>HotelWidget._parse_amadeus_results\<close>, for one offer\<close>
  "parse_amadeus_hotel ext params offer =
     and_then (py_get offer (lit ''hotel'') (JObj [])) (\<lambda>hotel_info.
     and_then (py_get offer (lit ''offers'') (JArr [JObj []])) (\<lambda>offers.
     and_then (py_item0 offers) (\<lambda>first_offer.
     and_then (py_get first_offer (lit ''price'') (JObj [])) (\<lambda>price_info.
     and_then (py_get price_info (lit ''total'') (JInt 0)) (\<lambda>total.
     and_then (py_float ext total) (\<lambda>price.
     and_then (py_get hotel_info (lit ''rating'') (JFloat 4.5)) (\<lambda>rating_value.
     and_then (py_float ext rating_value) (\<lambda>rating.
     and_then (py_get hotel_info (lit ''hotelId'') (JStr [])) (\<lambda>hotel_id.
     and_then (py_get hotel_info (lit ''name'') (JStr (lit ''Luxury Hotel''))) (\<lambda>name.
       case hotel_display_error ext offer of
         Some e \<Rightarrow> Inl e
       | None \<Rightarrow>
          (let nights = calculate_nights ext (hp_check_in params) (hp_check_out params);
               price_per_night = (if nights > 0 then price / real_of_int nights else price);
               deal_score = hotel_calculate_deal_score price_per_night rating
           in Inr \<lparr>h_id = (lit ''amadeus_'') @ py_format ext hotel_id,
                    h_name = name,
                    h_rating = rating,
                    h_price_per_night = price_per_night,
                    h_original_price =
                      (if deal_score \<ge> 7 then JFloat (price_per_night * 1.25) else JNull),
                    h_total_price = price,
                    h_category = LUXURY,
                    h_deal_score = deal_score,
                    h_savings_percent = (if deal_score \<ge> 7 then JInt 20 else JNull),
                    h_urgency = hotel_determine_urgency deal_score,
                    h_source = (lit ''amadeus'')\<rparr>)))))))))))"

fun parse_amadeus_hotels ::
  "externals \<Rightarrow> HotelSearchParams \<Rightarrow> json list \<Rightarrow> HotelResult list" where
  "parse_amadeus_hotels ext params [] = []"
| "parse_amadeus_hotels ext params (offer # rest) =
     (case parse_amadeus_hotel ext params offer of
        Inl e \<Rightarrow> parse_amadeus_hotels ext params rest
      | Inr hotel \<Rightarrow> hotel # parse_amadeus_hotels ext params rest)"

definition hotel_parse_amadeus_results ::
  "externals \<Rightarrow> json \<Rightarrow> HotelSearchParams \<Rightarrow> py_error + HotelResult list" where
  \<comment> \<open>\<open>HotelWidget._parse_amadeus_results\<close>\<close>
  "hotel_parse_amadeus_results ext results params =
     and_then (py_iter results) (\<lambda>offers. Inr (parse_amadeus_hotels ext params offers))"

definition parse_curated_hotel ::
  "externals \<Rightarrow> HotelSearchParams \<Rightarrow> json \<Rightarrow> py_error + HotelResult" where
  \<comment> \<open>the body of the \<open>try\<close> in \<open>HotelWidget._parse_curated_results\<close>, for one record\<close>
  "parse_curated_hotel ext params hotel_data =
     and_then (py_get hotel_data (lit ''price'') (JInt 500)) (\<lambda>price_value.
     and_then (py_float ext price_value) (\<lambda>price.
     and_then (py_get hotel_data (lit ''rating'') (JFloat 4.8)) (\<lambda>rating_value.
     and_then (py_float ext rating_value) (\<lambda>rating.
     and_then (py_get hotel_data (lit ''id'') (JStr [])) (\<lambda>hotel_id.
     and_then (py_get hotel_data (lit ''name'') (JStr (lit ''Luxury Hotel''))) (\<lambda>name.
     and_then (py_get hotel_data (lit ''originalPrice'') JNull) (\<lambda>original_price.
     and_then (py_get hotel_data (lit ''category'') (JStr (lit ''luxury''))) (\<lambda>category_value.
     and_then (HotelCategory_of category_value) (\<lambda>category.
     and_then (py_get hotel_data (lit ''savingsPercent'') JNull) (\<lambda>savings_percent.
       case curated_display_error ext hotel_data of
         Some e \<Rightarrow> Inl e
       | None \<Rightarrow>
          (let nights = calculate_nights ext (hp_check_in params) (hp_check_out params);
               deal_score = hotel_calculate_deal_score price rating
           in Inr \<lparr>h_id = (lit ''curated_'') @ py_format ext hotel_id,
                    h_name = name,
                    h_rating = rating,
                    h_price_per_night = price,
                    h_original_price = original_price,
                    h_total_price = price * real_of_int nights,
                    h_category = category,
                    h_deal_score = deal_score + 1,
                    h_savings_percent = savings_percent,
                    h_urgency = hotel_determine_urgency deal_score,
                    h_source = (lit ''curated'')\<rparr>)))))))))))"

fun parse_curated_hotels ::
  "externals \<Rightarrow> HotelSearchParams \<Rightarrow> json list \<Rightarrow> HotelResult list" where
  "parse_curated_hotels ext params [] = []"
| "parse_curated_hotels ext params (hotel_data # rest) =
     (case parse_curated_hotel ext params hotel_data of
        Inl e \<Rightarrow> parse_curated_hotels ext params rest
      | Inr hotel \<Rightarrow> hotel # parse_curated_hotels ext params rest)"

definition parse_curated_results ::
  "externals \<Rightarrow> json \<Rightarrow> HotelSearchParams \<Rightarrow> py_error + HotelResult list" where
  \<comment> \<open>\<open>HotelWidget._parse_curated_results\<close>\<close>
  "parse_curated_results ext results params =
     and_then (py_iter results) (\<lambda>records. Inr (parse_curated_hotels ext params records))"

definition hotel_mock_data :: "(str \<times> (str \<times> int \<times> real) list) list" where
  \<comment> \<open>\<open>mock_data\<close> of \<open>_get_mock_hotels\<close>: name, price and rating of each hotel (the brand is
      display-only)\<close>
  "hotel_mock_data =
     [((lit ''miami''),
        [((lit ''Faena Miami Beach''), 750, 4.8),
         ((lit ''The Setai Miami Beach''), 895, 4.9),
         ((lit ''Four Seasons Surf Club''), 1100, 4.9)]),
      ((lit ''paris''),
        [((lit ''Four Seasons Hotel George V''), 895, 4.9),
         ((lit ''Le Bristol Paris''), 1050, 4.9),
         ((lit ''Ritz Paris''), 1200, 4.8)]),
      ((lit ''tokyo''),
        [((lit ''Aman Tokyo''), 1100, 4.9),
         ((lit ''Park Hyatt Tokyo''), 650, 4.8),
         ((lit ''The Peninsula Tokyo''), 750, 4.8)]),
      ((lit ''dubai''),
        [((lit ''Burj Al Arab Jumeirah''), 1500, 4.9),
         ((lit ''One&Only The Palm''), 950, 4.8),
         ((lit ''Armani Hotel Dubai''), 650, 4.7)]),
      ((lit ''london''),
        [((lit ''Claridge's''), 850, 4.9),
         ((lit ''The Connaught''), 950, 4.9),
         ((lit ''The Savoy''), 750, 4.8)]),
      ((lit ''new york''),
        [((lit ''The Mark''), 1100, 4.9),
         ((lit ''Aman New York''), 1800, 4.9),
         ((lit ''The Carlyle''), 950, 4.8)]),
      ((lit ''maldives''),
        [((lit ''Soneva Fushi''), 2500, 4.9),
         ((lit ''One&Only Reethi Rah''), 2200, 4.9),
         ((lit ''Cheval Blanc Randheli''), 3000, 4.9)]),
      ((lit ''whistler''),
        [((lit ''Four Seasons Resort Whistler''), 895, 4.9),
         ((lit ''Fairmont Chateau Whistler''), 650, 4.8),
         ((lit ''Nita Lake Lodge''), 450, 4.7)]),
      ((lit ''vancouver''),
        [((lit ''Fairmont Pacific Rim''), 650, 4.9),
         ((lit ''Rosewood Hotel Georgia''), 550, 4.8),
         ((lit ''Shangri-La Vancouver''), 480, 4.8)]),
      ((lit ''aspen''),
        [((lit ''The Little Nell''), 1200, 4.9),
         ((lit ''St. Regis Aspen Resort''), 1100, 4.9),
         ((lit ''The Limelight Hotel''), 650, 4.7)]),
      ((lit ''bali''),
        [((lit ''Aman Villas at Nusa Dua''), 1500, 4.9),
         ((lit ''Four Seasons Resort Bali''), 950, 4.9),
         ((lit ''Bulgari Resort Bali''), 1200, 4.8)]),
      ((lit ''santorini''),
        [((lit ''Canaves Oia Epitome''), 1100, 4.9),
         ((lit ''Mystique Santorini''), 950, 4.8),
         ((lit ''Grace Hotel Santorini''), 850, 4.8)]),
      ((lit ''amalfi''),
        [((lit ''Belmond Hotel Caruso''), 1200, 4.9),
         ((lit ''Il San Pietro di Positano''), 1100, 4.9),
         ((lit ''Le Sirenuse''), 950, 4.8)])]"

definition code_map :: "(str \<times> str) list" where
  "code_map =
     [((lit ''mia''), (lit ''miami'')), ((lit ''par''), (lit ''paris'')), ((lit ''tyo''), (lit ''tokyo'')),
      ((lit ''dxb''), (lit ''dubai'')), ((lit ''lon''), (lit ''london'')), ((lit ''nyc''), (lit ''new york'')),
      ((lit ''mle''), (lit ''maldives'')), ((lit ''lhr''), (lit ''london'')), ((lit ''yvr''), (lit ''vancouver'')),
      ((lit ''yws''), (lit ''whistler'')), ((lit ''dps''), (lit ''bali'')), ((lit ''jtr''), (lit ''santorini'')),
      ((lit ''nap''), (lit ''amalfi'')), ((lit ''ase''), (lit ''aspen'')), ((lit ''cdg''), (lit ''paris'')),
      ((lit ''hnd''), (lit ''tokyo'')), ((lit ''nrt''), (lit ''tokyo'')), ((lit ''jfk''), (lit ''new york'')),
      ((lit ''lax''), (lit ''los angeles'')), ((lit ''sfo''), (lit ''san francisco''))]"

function str_of_nat :: "nat \<Rightarrow> str" where
  \<comment> \<open>the decimal digits of an index, as an f-string renders it\<close>
  "str_of_nat n =
     (if n < 10 then [48 + n] else str_of_nat (n div 10) @ [48 + n mod 10])"
  by pat_completeness auto
termination
  by (relation "measure id") auto

declare str_of_nat.simps [simp del]

fun mock_hotel_results ::
  "str \<Rightarrow> int \<Rightarrow> nat \<Rightarrow> (str \<times> int \<times> real) list \<Rightarrow> HotelResult list" where
  \<comment> \<open>the \<open>for idx, data in enumerate(hotels_data)\<close> loop of \<open>_get_mock_hotels\<close>\<close>
  "mock_hotel_results location_lower nights idx [] = []"
| "mock_hotel_results location_lower nights idx ((name, price, rating) # rest) =
     \<lparr>h_id = (lit ''amadeus_'') @ location_lower @ (lit ''_'') @ str_of_nat idx,
      h_name = JStr name,
      h_rating = rating,
      h_price_per_night = real_of_int price,
      h_original_price = JInt (py_int (real_of_int price * 1.25)),
      h_total_price = real_of_int (price * nights),
      h_category = LUXURY,
      h_deal_score = 8,
      h_savings_percent = JInt 20,
      h_urgency = UL_HIGH,
      h_source = (lit ''amadeus'')\<rparr>
     # mock_hotel_results location_lower nights (Suc idx) rest"

definition get_mock_hotels :: "externals \<Rightarrow> HotelSearchParams \<Rightarrow> HotelResult list" where
  \<comment> \<open>\<open>HotelWidget._get_mock_hotels\<close>\<close>
  "get_mock_hotels ext params =
     (let location_lower = py_strip (py_lower ext (hp_location params));
          location_lower = (case map_of code_map location_lower of
                              Some city \<Rightarrow> city | None \<Rightarrow> location_lower);
          hotels_data =
            (case map_of hotel_mock_data location_lower of
               Some rows \<Rightarrow> rows
             | None \<Rightarrow>
                (let display_name = py_title ext (hp_location params)
                 in [((lit ''Four Seasons '') @ display_name, 895, 4.9),
                     ((lit ''Ritz-Carlton '') @ display_name, 750, 4.8),
                     ((lit ''St. Regis '') @ display_name, 850, 4.8)]));
          nights = calculate_nights ext (hp_check_in params) (hp_check_out params)
      in mock_hotel_results location_lower nights 0 hotels_data)"

definition create_mock_hotel :: HotelResult where
  \<comment> \<open>\<open>HotelWidget._create_mock_hotel\<close>, the hotel \<open>get_widget_data\<close> shows when no
      destination gave one\<close>
  "create_mock_hotel =
     \<lparr>h_id = lit ''amadeus_paris_001'',
      h_name = JStr (lit ''Four Seasons Hotel George V''),
      h_rating = 4.9,
      h_price_per_night = 895,
      h_original_price = JInt 1195,
      h_total_price = 2685,
      h_category = LUXURY,
      h_deal_score = 8,
      h_savings_percent = JInt 25,
      h_urgency = UL_HIGH,
      h_source = lit ''amadeus''\<rparr>"

definition name_key :: "externals \<Rightarrow> json \<Rightarrow> py_error + str" where
  \<comment> \<open>\<open>hotel.name.lower().replace(" ", "")[:20]\<close>: only a str has \<open>lower\<close>\<close>
  "name_key ext name =
     (case name of
        JStr s \<Rightarrow> Inr (take 20 (filter (\<lambda>c. c \<noteq> 32) (py_lower ext s)))
      | _ \<Rightarrow> Inl AttributeError)"

fun deduplicate ::
  "externals \<Rightarrow> str set \<Rightarrow> HotelResult list \<Rightarrow> HotelResult list
     \<Rightarrow> py_error + HotelResult list" where
  \<comment> \<open>the deduplication loop of \<open>search_hotels\<close>, from the state (\<open>seen_names\<close>,
      \<open>unique_results\<close>) over the hotels still to visit\<close>
  "deduplicate ext seen_names unique_results [] = Inr unique_results"
| "deduplicate ext seen_names unique_results (hotel # rest) =
     (case name_key ext (h_name hotel) of
        Inl e \<Rightarrow> Inl e
      | Inr key \<Rightarrow>
          if key \<notin> seen_names
          then deduplicate ext (insert key seen_names) (unique_results @ [hotel]) rest
          else deduplicate ext seen_names unique_results rest)"

record HotelWidget =
  hw_amadeus :: "(HotelSearchParams \<Rightarrow> py_error + json) option"

definition hotel_sort_key :: "HotelResult \<Rightarrow> int \<times> real" where
  "hotel_sort_key h = (- h_deal_score h, - h_rating h)"

definition gathered_hotels ::
  "externals \<Rightarrow> HotelWidget \<Rightarrow> HotelSearchParams \<Rightarrow> HotelResult list" where
  \<comment> \<open>\<open>results\<close> of \<open>search_hotels\<close> where the deduplication starts: the parsed provider
      offers, or the mock hotels when there are none\<close>
  "gathered_hotels ext self params =
     (let results =
            (case hw_amadeus self of
               None \<Rightarrow> []
             | Some client \<Rightarrow>
                 (case and_then (client params)
                         (\<lambda>amadeus_results.
                            hotel_parse_amadeus_results ext amadeus_results params) of
                    Inl e \<Rightarrow> []
                  | Inr parsed \<Rightarrow> parsed))
      in if results = [] then get_mock_hotels ext params else results)"

definition unique_sorted_top10 ::
  "externals \<Rightarrow> HotelResult list \<Rightarrow> py_error + HotelResult list" where
  \<comment> \<open>the rest of \<open>search_hotels\<close>: deduplicate, sort, keep ten\<close>
  "unique_sorted_top10 ext results =
     and_then (deduplicate ext {} [] results) (\<lambda>unique_results.
       Inr (py_slice_upto 10 (sort_key hotel_sort_key unique_results)))"

definition search_hotels ::
  "externals \<Rightarrow> HotelWidget \<Rightarrow> HotelSearchParams \<Rightarrow> py_error + HotelResult list" where
  \<comment> \<open>\<open>HotelWidget.search_hotels\<close>\<close>
  "search_hotels ext self params = unique_sorted_top10 ext (gathered_hotels ext self params)"

section \<open>Restaurant widget (src/tools/widgets/restaurant_widget.py)\<close>

text \<open>Fields of \<open>RestaurantSearchParams\<close> carry the prefix \<open>rp_\<close>, those of
  \<open>RestaurantResult\<close> the prefix \<open>r_\<close>; the display-only fields of a result and the
  randomly sampled reservation times are left out.\<close>

record RestaurantSearchParams =
  rp_location :: str
  rp_date :: str
  rp_time :: str
  rp_party_size :: int

record RestaurantResult =
  r_id :: str
  r_name :: str
  r_cuisine :: str
  r_rating :: real
  r_michelin_stars :: int
  r_source :: str

definition restaurant_mock_data ::
  "(str \<times> (str \<times> str \<times> real \<times> int) list) list" where
  \<comment> \<open>\<open>mock_data\<close> of \<open>_get_mock_restaurants\<close>: name, cuisine, rating and Michelin stars of
      each restaurant\<close>
  "restaurant_mock_data =
     [((lit ''paris''),
        [((lit ''Le Cinq''), (lit ''french''), 4.9, 3),
         ((lit ''L'Ambroisie''), (lit ''french''), 4.9, 3),
         ((lit ''Septime''), (lit ''french''), 4.7, 1)]),
      ((lit ''tokyo''),
        [((lit ''Sukiyabashi Jiro''), (lit ''japanese''), 4.9, 3),
         ((lit ''Narisawa''), (lit ''japanese''), 4.8, 2),
         ((lit ''Den''), (lit ''japanese''), 4.8, 2)]),
      ((lit ''new york''),
        [((lit ''Eleven Madison Park''), (lit ''american''), 4.8, 3),
         ((lit ''Le Bernardin''), (lit ''seafood''), 4.9, 3),
         ((lit ''Carbone''), (lit ''italian''), 4.6, 0)]),
      ((lit ''miami''),
        [((lit ''Fiola Miami''), (lit ''italian''), 4.7, 0),
         ((lit ''Ariete''), (lit ''american''), 4.6, 0),
         ((lit ''Stubborn Seed''), (lit ''american''), 4.7, 0)]),
      ((lit ''london''),
        [((lit ''Restaurant Gordon Ramsay''), (lit ''french''), 4.8, 3),
         ((lit ''The Ledbury''), (lit ''french''), 4.8, 2),
         ((lit ''Dishoom''), (lit ''indian''), 4.6, 0)])]"

fun mock_restaurant_results ::
  "str \<Rightarrow> nat \<Rightarrow> (str \<times> str \<times> real \<times> int) list \<Rightarrow> RestaurantResult list" where
  \<comment> \<open>the \<open>for idx, data in enumerate(restaurants_data)\<close> loop\<close>
  "mock_restaurant_results location_lower idx [] = []"
| "mock_restaurant_results location_lower idx ((name, cuisine, rating, michelin) # rest) =
     \<lparr>r_id = (lit ''opentable_'') @ location_lower @ (lit ''_'') @ str_of_nat idx,
      r_name = name,
      r_cuisine = cuisine,
      r_rating = rating,
      r_michelin_stars = michelin,
      r_source = (lit ''opentable'')\<rparr>
     # mock_restaurant_results location_lower (Suc idx) rest"

definition get_mock_restaurants ::
  "externals \<Rightarrow> RestaurantSearchParams \<Rightarrow> RestaurantResult list" where
  \<comment> \<open>\<open>RestaurantWidget._get_mock_restaurants\<close>: an unknown city gets the Paris rows\<close>
  "get_mock_restaurants ext params =
     (let location_lower = py_lower ext (rp_location params);
          restaurants_data =
            (case map_of restaurant_mock_data location_lower of
               Some rows \<Rightarrow> rows
             | None \<Rightarrow> (case map_of restaurant_mock_data (lit ''paris'') of
                           Some rows \<Rightarrow> rows | None \<Rightarrow> []))
      in mock_restaurant_results location_lower 0 restaurants_data)"

definition restaurant_sort_key :: "RestaurantResult \<Rightarrow> int \<times> real" where
  "restaurant_sort_key r = (- r_michelin_stars r, - r_rating r)"

definition search_restaurants ::
  "externals \<Rightarrow> RestaurantSearchParams \<Rightarrow> RestaurantResult list" where
  \<comment> \<open>\<open>RestaurantWidget.search_restaurants\<close>\<close>
  "search_restaurants ext params =
     py_slice_upto 10 (sort_key restaurant_sort_key (get_mock_restaurants ext params))"

section \<open>Outbound message sender (src/tools/whatsapp_sender.py)\<close>

record WhatsAppClient =
  access_token :: "str option"
  phone_number_id :: "str option"
  business_account_id :: "str option"

definition env_truthy :: "str option \<Rightarrow> bool" where
  \<comment> \<open>truth value of what \<open>os.getenv\<close> returned: \<open>None\<close> and the empty str are false\<close>
  "env_truthy v = (case v of None \<Rightarrow> False | Some s \<Rightarrow> s \<noteq> [])"

definition is_configured :: "WhatsAppClient \<Rightarrow> bool" where
  "is_configured self = (env_truthy (access_token self) \<and> env_truthy (phone_number_id self))"

record http_request =
  url :: str
  authorization :: str
  json_body :: json

record http_response =
  status_code :: int
  response_text :: str
  response_json :: "py_error + json"
    \<comment> \<open>what \<open>response.json()\<close> returns or raises\<close>

record transport =
  post :: "http_request \<Rightarrow> py_error + http_response"
    \<comment> \<open>the awaited \<open>client.post\<close>, opening the client included: the response, or the
        exception raised\<close>
  str_of_error :: "py_error \<Rightarrow> str"
    \<comment> \<open>\<open>str(e)\<close>\<close>

definition API_URL :: str where
  "API_URL = (lit ''https://graph.facebook.com/v18.0'')"

definition env_format :: "str option \<Rightarrow> str" where
  \<comment> \<open>how an f-string renders what \<open>os.getenv\<close> returned\<close>
  "env_format v = (case v of None \<Rightarrow> (lit ''None'') | Some s \<Rightarrow> s)"

definition message_request :: "WhatsAppClient \<Rightarrow> json \<Rightarrow> http_request" where
  "message_request self message =
     \<lparr>url = API_URL @ (lit ''/'') @ env_format (phone_number_id self) @ (lit ''/messages''),
      authorization = (lit ''Bearer '') @ env_format (access_token self),
      json_body = message\<rparr>"

definition deliver :: "transport \<Rightarrow> WhatsAppClient \<Rightarrow> json \<Rightarrow> py_error + json" where
  \<comment> \<open>the body of the \<open>try\<close> in \<open>WhatsAppClient._send_message\<close>\<close>
  "deliver net self message =
     and_then (post net (message_request self message)) (\<lambda>response.
       if status_code response = 200
       then and_then (response_json response) (\<lambda>body.
              Inr (JObj [((lit ''success''), JBool True), ((lit ''response''), body)]))
       else Inr (JObj [((lit ''success''), JBool False),
                       ((lit ''error''), JStr (response_text response))]))"

definition send_message ::
  "transport \<Rightarrow> WhatsAppClient \<Rightarrow> json \<Rightarrow> (py_error + json) \<times> http_request list" where
  \<comment> \<open>\<open>WhatsAppClient._send_message\<close>: what it returns or raises, and the requests it
      posted\<close>
  "send_message net self message =
     (if \<not> is_configured self
      then (Inr (JObj [((lit ''success''), JBool True),
                       ((lit ''mock''), JBool True),
                       ((lit ''message''), JStr (lit ''WhatsApp not configured - showing preview'')),
                       ((lit ''preview''), message)]), [])
      else (case deliver net self message of
              Inr result \<Rightarrow> Inr result
            | Inl e \<Rightarrow> Inr (JObj [((lit ''success''), JBool False),
                                   ((lit ''error''), JStr (str_of_error net e))]),
            [message_request self message]))"

section \<open>Webhook receiver (src/main.py)\<close>

record webhook_request =
  hub_signature_256 :: "str option"
    \<comment> \<open>the value of the X-Hub-Signature-256 header, \<open>None\<close> when the header is absent\<close>
  raw_body :: bytes
    \<comment> \<open>the bytes of the request body\<close>

record webhook_library =
  utf8_decode :: "bytes \<Rightarrow> str option"
    \<comment> \<open>\<open>body.decode('utf-8')\<close>; \<open>None\<close> when it raises\<close>
  utf8_encode :: "str \<Rightarrow> bytes"
    \<comment> \<open>\<open>APP_SECRET.encode()\<close>\<close>
  hmac_sha256_hexdigest :: "bytes \<Rightarrow> bytes \<Rightarrow> str"
    \<comment> \<open>\<open>hmac.new(key, msg, hashlib.sha256).hexdigest()\<close>\<close>
  json_loads :: "str \<Rightarrow> json option"
    \<comment> \<open>\<open>json.loads\<close>; \<open>None\<close> when it raises\<close>
  render_error :: "py_error \<Rightarrow> str"
    \<comment> \<open>\<open>str(e)\<close>\<close>

datatype log_entry =
    LogInvalidSignature
  | LogWebhookReceived
  | LogTextMessage json json
  | LogButtonClick json json
  | LogBookingRequest json
  | LogDetailsRequest json
  | LogAddToCart json
  | LogMessageStatus json json
  | LogWebhookError py_error

definition is_ascii :: "nat \<Rightarrow> bool" where
  "is_ascii c = (c < 128)"

definition compare_digest :: "str \<Rightarrow> str \<Rightarrow> py_error + bool" where
  \<comment> \<open>\<open>hmac.compare_digest\<close> on two str values: TypeError unless both are ASCII\<close>
  "compare_digest a b =
     (if list_all is_ascii a \<and> list_all is_ascii b then Inr (a = b) else Inl TypeError)"

definition starts_with :: "str \<Rightarrow> str \<Rightarrow> bool" where
  "starts_with s p = (take (length p) s = p)"

definition button_action :: "json \<Rightarrow> log_entry list \<times> py_error option" where
  \<comment> \<open>the \<open>button_id.startswith\<close> chain: only a str has the method\<close>
  "button_action button_id =
     (case button_id of
        JStr s \<Rightarrow>
          (if starts_with s (lit ''book_'') then [LogBookingRequest button_id]
           else if starts_with s (lit ''details_'') then [LogDetailsRequest button_id]
           else if starts_with s (lit ''cart_'') then [LogAddToCart button_id]
           else [], None)
      | _ \<Rightarrow> ([], Some AttributeError))"

definition handle_message :: "json \<Rightarrow> log_entry list \<times> py_error option" where
  \<comment> \<open>one pass of the \<open>for message in messages\<close> loop: the lines it logs and the exception
      it raises, if any\<close>
  "handle_message message =
     (case and_then (py_get message (lit ''from'') JNull) (\<lambda>from_number.
           and_then (py_get message (lit ''type'') JNull) (\<lambda>msg_type.
             Inr (from_number, msg_type))) of
        Inl e \<Rightarrow> ([], Some e)
      | Inr (from_number, msg_type) \<Rightarrow>
          if msg_type = JStr (lit ''text'') then
            (case and_then (py_get message (lit ''text'') (JObj [])) (\<lambda>text_obj.
                    py_get text_obj (lit ''body'') (JStr [])) of
               Inl e \<Rightarrow> ([], Some e)
             | Inr text \<Rightarrow> ([LogTextMessage from_number text], None))
          else if msg_type = JStr (lit ''interactive'') then
            (case and_then (py_get message (lit ''interactive'') (JObj [])) (\<lambda>interactive.
                  and_then (py_get interactive (lit ''button_reply'') (JObj [])) (\<lambda>button_reply.
                    py_get button_reply (lit ''id'') (JStr []))) of
               Inl e \<Rightarrow> ([], Some e)
             | Inr button_id \<Rightarrow>
                 (LogButtonClick from_number button_id # fst (button_action button_id),
                  snd (button_action button_id)))
          else ([], None))"

fun handle_messages :: "json list \<Rightarrow> log_entry list \<times> py_error option" where
  "handle_messages [] = ([], None)"
| "handle_messages (message # rest) =
     (case handle_message message of
        (logged, Some e) \<Rightarrow> (logged, Some e)
      | (logged, None) \<Rightarrow>
          (logged @ fst (handle_messages rest), snd (handle_messages rest)))"

definition handle_status :: "json \<Rightarrow> log_entry list \<times> py_error option" where
  "handle_status status =
     (case and_then (py_get status (lit ''status'') JNull) (\<lambda>msg_status.
           and_then (py_get status (lit ''recipient_id'') JNull) (\<lambda>recipient.
             Inr (recipient, msg_status))) of
        Inl e \<Rightarrow> ([], Some e)
      | Inr (recipient, msg_status) \<Rightarrow> ([LogMessageStatus recipient msg_status], None))"

fun handle_statuses :: "json list \<Rightarrow> log_entry list \<times> py_error option" where
  "handle_statuses [] = ([], None)"
| "handle_statuses (status # rest) =
     (case handle_status status of
        (logged, Some e) \<Rightarrow> (logged, Some e)
      | (logged, None) \<Rightarrow>
          (logged @ fst (handle_statuses rest), snd (handle_statuses rest)))"

definition extract_messages :: "json \<Rightarrow> py_error + json \<times> json list" where
  \<comment> \<open>\<open>entry\<close>, \<open>changes\<close>, \<open>value\<close> and the messages the loop will visit\<close>
  "extract_messages payload =
     and_then (py_get payload (lit ''entry'') (JArr [JObj []])) (\<lambda>entries.
     and_then (py_item0 entries) (\<lambda>entry.
     and_then (py_get entry (lit ''changes'') (JArr [JObj []])) (\<lambda>changes_list.
     and_then (py_item0 changes_list) (\<lambda>changes.
     and_then (py_get changes (lit ''value'') (JObj [])) (\<lambda>value.
     and_then (py_get value (lit ''messages'') (JArr [])) (\<lambda>messages.
     and_then (py_iter messages) (\<lambda>items. Inr (value, items))))))))"

definition process_payload ::
  "webhook_library \<Rightarrow> str \<Rightarrow> log_entry list \<times> (py_error + json)" where
  \<comment> \<open>\<open>whatsapp_incoming\<close> from \<open>json.loads\<close> to the \<open>return\<close>: the lines logged and the
      value returned or exception raised\<close>
  "process_payload lib body_str =
     (case json_loads lib body_str of
        None \<Rightarrow> ([], Inl JSONDecodeError)
      | Some payload \<Rightarrow>
          (case extract_messages payload of
             Inl e \<Rightarrow> ([LogWebhookReceived], Inl e)
           | Inr (value, items) \<Rightarrow>
               (case handle_messages items of
                  (log1, Some e) \<Rightarrow> (LogWebhookReceived # log1, Inl e)
                | (log1, None) \<Rightarrow>
                    (case and_then (py_get value (lit ''statuses'') (JArr [])) py_iter of
                       Inl e \<Rightarrow> (LogWebhookReceived # log1, Inl e)
                     | Inr statuses \<Rightarrow>
                         (case handle_statuses statuses of
                            (log2, Some e) \<Rightarrow> (LogWebhookReceived # log1 @ log2, Inl e)
                          | (log2, None) \<Rightarrow>
                              (LogWebhookReceived # log1 @ log2,
                               Inr (JObj [((lit ''status''), JStr (lit ''received''))])))))))"

definition header_signature :: "webhook_request \<Rightarrow> str" where
  \<comment> \<open>\<open>request.headers.get("X-Hub-Signature-256", "")\<close>\<close>
  "header_signature request = (case hub_signature_256 request of None \<Rightarrow> [] | Some s \<Rightarrow> s)"

definition expected_signature :: "webhook_library \<Rightarrow> str \<Rightarrow> webhook_request \<Rightarrow> str" where
  "expected_signature lib app_secret request =
     (lit ''sha256='') @ hmac_sha256_hexdigest lib (utf8_encode lib app_secret) (raw_body request)"

definition whatsapp_incoming_try ::
  "webhook_library \<Rightarrow> str \<Rightarrow> webhook_request \<Rightarrow> log_entry list \<times> (py_error + json)" where
  \<comment> \<open>the body of the \<open>try\<close> in \<open>whatsapp_incoming\<close>; \<open>app_secret\<close> is \<open>APP_SECRET\<close>\<close>
  "whatsapp_incoming_try lib app_secret request =
     (case utf8_decode lib (raw_body request) of
        None \<Rightarrow> ([], Inl UnicodeDecodeError)
      | Some body_str \<Rightarrow>
          (let signature = header_signature request
           in if app_secret \<noteq> [] \<and> signature \<noteq> []
              then (case compare_digest signature (expected_signature lib app_secret request) of
                      Inl e \<Rightarrow> ([], Inl e)
                    | Inr matches \<Rightarrow>
                        if \<not> matches
                        then ([LogInvalidSignature],
                              Inl (HTTPException 401 (lit ''Invalid signature'')))
                        else process_payload lib body_str)
              else process_payload lib body_str))"

definition whatsapp_incoming ::
  "webhook_library \<Rightarrow> str \<Rightarrow> webhook_request \<Rightarrow> log_entry list \<times> (py_error + json)" where
  \<comment> \<open>\<open>whatsapp_incoming\<close>: \<open>except Exception\<close> turns every exception of the body, the
      HTTPException included, into a returned error dict\<close>
  "whatsapp_incoming lib app_secret request =
     (case whatsapp_incoming_try lib app_secret request of
        (logged, Inr response) \<Rightarrow> (logged, Inr response)
      | (logged, Inl e) \<Rightarrow>
          (logged @ [LogWebhookError e],
           Inr (JObj [((lit ''status''), JStr (lit ''error'')),
                      ((lit ''message''), JStr (render_error lib e))])))"

definition response_status :: "py_error + json \<Rightarrow> nat" where
  \<comment> \<open>the HTTP status the framework sends for what a handler returned or raised\<close>
  "response_status outcome =
     (case outcome of
        Inr body \<Rightarrow> 200
      | Inl (HTTPException code detail) \<Rightarrow> code
      | Inl _ \<Rightarrow> 500)"

definition processed :: "log_entry list \<Rightarrow> bool" where
  \<comment> \<open>the payload was parsed: the receiver logged that a webhook was received\<close>
  "processed logged = (LogWebhookReceived \<in> set logged)"

definition hotel_key :: "externals \<Rightarrow> HotelResult \<Rightarrow> py_error + str" where
  \<comment> \<open>\<open>name_key\<close> of the deduplication loop, for one hotel\<close>
  "hotel_key ext hotel = name_key ext (h_name hotel)"

definition plain_errors :: "py_error set" where
  \<comment> \<open>the exceptions that parsing and walking a payload can raise\<close>
  "plain_errors = {AttributeError, IndexError, KeyError, TypeError, JSONDecodeError}"

section \<open>Example inputs\<close>

text \<open>The inputs the examples below run the program on. The examples carry JSON numbers
  and string identifiers, so \<open>float_of_str\<close> and \<open>str_of\<close> are never consulted; one pair of
  dates parses, to three nights; no display-only field fails to build.\<close>

definition example_externals :: externals where
  "example_externals =
     \<lparr>float_of_str = (\<lambda>s. None),
      str_of = (\<lambda>v. (lit ''?'')),
      strptime_days =
        (\<lambda>a b. if a = lit ''2025-06-01'' \<and> b = lit ''2025-06-04'' then Some 3 else None),
      unicode_lower = (\<lambda>s. s),
      unicode_upper = (\<lambda>s. s),
      unicode_title = (\<lambda>s. s),
      flight_display_error = (\<lambda>offer. None),
      hotel_display_error = (\<lambda>offer. None),
      curated_display_error = (\<lambda>hotel_data. None)\<rparr>"

definition jfk_cdg_business :: FlightSearchParams where
  \<comment> \<open>\<open>FlightSearchParams(origin="JFK", destination="CDG", departure_date="2025-06-01")\<close>;
      the other fields have their defaults\<close>
  "jfk_cdg_business =
     \<lparr>fp_origin = (lit ''JFK''), fp_destination = (lit ''CDG''), fp_departure_date = (lit ''2025-06-01''),
      fp_return_date = None, fp_adults = 1, fp_cabin_class = BUSINESS, fp_max_results = 10,
      fp_max_price = None\<rparr>"

definition no_flight_provider :: FlightWidget where
  "no_flight_provider = \<lparr>fw_amadeus = None\<rparr>"


definition one_cheap_nonstop_offer :: json where
  \<comment> \<open>a provider response with one offer: 1500 in total, one segment\<close>
  "one_cheap_nonstop_offer =
     JArr [JObj [((lit ''id''), JStr (lit ''1'')),
                 ((lit ''price''), JObj [((lit ''total''), JInt 1500)]),
                 ((lit ''itineraries''),
                    JArr [JObj [((lit ''segments''), JArr [JObj [((lit ''carrierCode''), JStr (lit ''AF''))]])]])]]"

definition cheap_flight_provider :: FlightWidget where
  "cheap_flight_provider = \<lparr>fw_amadeus = Some (\<lambda>params. Inr one_cheap_nonstop_offer)\<rparr>"

definition paris_three_nights :: HotelSearchParams where
  \<comment> \<open>\<open>HotelSearchParams(location="Paris", check_in="2025-06-01", check_out="2025-06-04")\<close>\<close>
  "paris_three_nights =
     \<lparr>hp_location = (lit ''Paris''), hp_check_in = (lit ''2025-06-01''), hp_check_out = (lit ''2025-06-04''),
      hp_guests = 2, hp_rooms = 1, hp_min_rating = 4.0, hp_max_price = None,
      hp_category = LUXURY, hp_amenities = None\<rparr>"

definition no_hotel_provider :: HotelWidget where
  "no_hotel_provider = \<lparr>hw_amadeus = None\<rparr>"


definition offer_named :: "str \<Rightarrow> json" where
  \<comment> \<open>a provider hotel offer: the given name, 2700 in total, no rating\<close>
  "offer_named name =
     JObj [((lit ''hotel''), JObj [((lit ''hotelId''), JStr name), ((lit ''name''), JStr name)]),
           ((lit ''offers''), JArr [JObj [((lit ''price''), JObj [((lit ''total''), JInt 2700)])]])]"

definition twelve_offers :: json where
  \<comment> \<open>eleven hotels with different names, and a twelfth that repeats the eleventh's name
      in another case\<close>
  "twelve_offers =
     JArr [offer_named (lit ''Hotel A''), offer_named (lit ''Hotel B''), offer_named (lit ''Hotel C''),
           offer_named (lit ''Hotel D''), offer_named (lit ''Hotel E''), offer_named (lit ''Hotel F''),
           offer_named (lit ''Hotel G''), offer_named (lit ''Hotel H''), offer_named (lit ''Hotel I''),
           offer_named (lit ''Hotel J''), offer_named (lit ''Hotel K''), offer_named (lit ''HOTEL K'')]"

definition twelve_hotel_provider :: HotelWidget where
  "twelve_hotel_provider = \<lparr>hw_amadeus = Some (\<lambda>params. Inr twelve_offers)\<rparr>"

definition two_offers_one_name :: json where
  "two_offers_one_name = JArr [offer_named (lit ''Ritz Paris''), offer_named (lit ''RITZ  PARIS'')]"

definition two_hotel_provider :: HotelWidget where
  "two_hotel_provider = \<lparr>hw_amadeus = Some (\<lambda>params. Inr two_offers_one_name)\<rparr>"

definition three_offers_one_name :: json where
  "three_offers_one_name =
     JArr [offer_named (lit ''Ritz Paris''), offer_named (lit ''RITZ  PARIS''),
           offer_named (lit ''ritz paris'')]"

definition three_hotel_provider :: HotelWidget where
  "three_hotel_provider = \<lparr>hw_amadeus = Some (\<lambda>params. Inr three_offers_one_name)\<rparr>"

definition accented_offers :: json where
  \<comment> \<open>one name in capitals and in small letters, with an accented letter\<close>
  "accented_offers =
     JArr [offer_named (lit ''H'' @ [212] @ lit ''TEL RITZ''),
           offer_named (lit ''h'' @ [244] @ lit ''tel ritz'')]"

definition accented_hotel_provider :: HotelWidget where
  "accented_hotel_provider = \<lparr>hw_amadeus = Some (\<lambda>params. Inr accented_offers)\<rparr>"

definition nameless_offer :: json where
  \<comment> \<open>a provider hotel offer whose name is null\<close>
  "nameless_offer =
     JObj [((lit ''hotel''), JObj [((lit ''hotelId''), JStr (lit ''H1'')), ((lit ''name''), JNull)]),
           ((lit ''offers''), JArr [JObj [((lit ''price''), JObj [((lit ''total''), JInt 2700)])]])]"

definition nameless_hotel_provider :: HotelWidget where
  "nameless_hotel_provider = \<lparr>hw_amadeus = Some (\<lambda>params. Inr (JArr [nameless_offer]))\<rparr>"

definition curated_records :: json where
  \<comment> \<open>two curated records: a cheap well-rated hotel, and one with only a price\<close>
  "curated_records =
     JArr [JObj [((lit ''price''), JInt 200), ((lit ''rating''), JFloat 4.5)],
           JObj [((lit ''price''), JInt 400)]]"

definition tokyo_dinner :: RestaurantSearchParams where
  "tokyo_dinner =
     \<lparr>rp_location = (lit ''Tokyo''), rp_date = (lit ''2025-06-01''), rp_time = (lit ''19:00''),
      rp_party_size = 2\<rparr>"

definition unconfigured_client :: WhatsAppClient where
  "unconfigured_client =
     \<lparr>access_token = None, phone_number_id = None, business_account_id = None\<rparr>"

definition configured_client :: WhatsAppClient where
  "configured_client =
     \<lparr>access_token = Some (lit ''token''), phone_number_id = Some (lit ''1555''),
      business_account_id = None\<rparr>"

definition rejecting_transport :: transport where
  \<comment> \<open>the API answers every post with status 401\<close>
  "rejecting_transport =
     \<lparr>post = (\<lambda>request. Inr \<lparr>status_code = 401, response_text = (lit ''denied''),
                                 response_json = Inl JSONDecodeError\<rparr>),
      str_of_error = (\<lambda>e. (lit ''error''))\<rparr>"

definition broken_transport :: transport where
  \<comment> \<open>every post raises\<close>
  "broken_transport =
     \<lparr>post = (\<lambda>request. Inl (UpstreamError (lit ''timeout''))),
      str_of_error = (\<lambda>e. (lit ''error''))\<rparr>"

definition text_message :: json where
  "text_message = JObj [((lit ''type''), JStr (lit ''text'')), ((lit ''text''), JObj [((lit ''body''), JStr (lit ''hi''))])]"

definition example_webhook_library :: webhook_library where
  \<comment> \<open>the digest is a stand-in that returns hexadecimal digits; the one body the examples
      send, \<open>{}\<close>, decodes to the empty object\<close>
  "example_webhook_library =
     \<lparr>utf8_decode = (\<lambda>body. Some (lit body)),
      utf8_encode = (\<lambda>s. map char_of s),
      hmac_sha256_hexdigest = (\<lambda>key msg. (lit ''5f2a'')),
      json_loads = (\<lambda>s. if s = (lit ''{}'') then Some (JObj []) else None),
      render_error = (\<lambda>e. (lit ''error''))\<rparr>"

definition unsigned_request :: webhook_request where
  "unsigned_request = \<lparr>hub_signature_256 = None, raw_body = ''{}''\<rparr>"

definition missigned_request :: webhook_request where
  "missigned_request = \<lparr>hub_signature_256 = Some (lit ''sha256=0000''), raw_body = ''{}''\<rparr>"

section \<open>Literals\<close>

lemma lit_inject [simp]: "lit a = lit b \<longleftrightarrow> a = b"
proof
  assume "lit a = lit b"
  then have "map (char_of :: nat \<Rightarrow> char) (lit a) = map char_of (lit b)" by simp
  then show "a = b" by (simp add: lit_def comp_def)
qed simp

lemma length_lit [simp]: "length (lit s) = length s"
  by (simp add: lit_def)

lemma lit_Nil [simp]: "lit [] = []"
  by (simp add: lit_def)

lemma lit_eq_Nil [simp]: "lit s = [] \<longleftrightarrow> s = []"
  by (simp add: lit_def)

lemma Nil_eq_lit [simp]: "[] = lit s \<longleftrightarrow> s = []"
  by (auto simp: lit_def)

lemma lit_append: "lit a @ lit b = lit (a @ b)"
  by (simp add: lit_def)

section \<open>Properties of the flight deal score\<close>

lemma py_int_clamp: "max 1 (min 10 (py_int x)) = py_int (max 1 (min 10 x))"
proof -
  consider "x < 1" | "1 \<le> x \<and> x \<le> 10" | "10 < x" by linarith
  then show ?thesis
  proof cases
    case 1
    then have "py_int x \<le> 0"
      by (auto simp: py_int_def floor_le_iff ceiling_le_iff intro: less_imp_le)
    with 1 show ?thesis by (simp add: py_int_def max_def min_def)
  next
    case 2
    then have "1 \<le> py_int x" "py_int x \<le> 10"
      by (auto simp: py_int_def le_floor_iff floor_le_iff)
    with 2 show ?thesis by (auto simp: max_def min_def)
  next
    case 3
    then have "10 \<le> py_int x" by (auto simp: py_int_def le_floor_iff)
    with 3 show ?thesis by (simp add: py_int_def max_def min_def)
  qed
qed

lemma flight_base_score_eq:
  "(if price \<le> excellent (thresholds cabin) then 9
    else if price \<le> good (thresholds cabin) then 7
    else if price \<le> average (thresholds cabin) then 5 else (3::real))
   = spec_flight_base_score price cabin"
  by (cases cabin) (simp_all add: thresholds_def spec_flight_base_score_def)

text \<open>C4: the flight deal score of the code is the score of the specification, for every
  price, cabin class and stop count (in particular for prices and stop counts that are not
  negative): the threshold table gives 9, 7, 5 or 3, each stop costs half a point, the
  result is clamped to [1,10] and truncated. The code truncates before it clamps; the two
  orders agree because the bounds are integers.\<close>

theorem flight_deal_score_as_specified:
  "flight_calculate_deal_score price cabin stops = spec_flight_deal_score price cabin stops"
  unfolding flight_calculate_deal_score_def spec_flight_deal_score_def Let_def
  by (simp only: flight_base_score_eq py_int_clamp mult.commute)

section \<open>Lemmas about the searches\<close>

lemma and_then_Inr:
  "and_then m f = Inr y \<longleftrightarrow> (\<exists>x. m = Inr x \<and> f x = Inr y)"
  by (cases m) (simp_all add: and_then_def)

lemma Inr_and_then:
  "Inr y = and_then m f \<longleftrightarrow> (\<exists>x. m = Inr x \<and> f x = Inr y)"
  by (cases m) (auto simp: and_then_def)

lemma py_slice_upto_subset: "set (py_slice_upto n xs) \<subseteq> set xs"
  by (auto simp: py_slice_upto_def dest: in_set_takeD)

lemma deduplicate_first_occurrences:
  assumes "deduplicate ext seen acc hs = Inr out"
  shows "\<exists>ys. out = acc @ ys
           \<and> distinct (map (hotel_key ext) ys)
           \<and> (\<forall>y \<in> set ys. find (\<lambda>x. hotel_key ext x = hotel_key ext y) hs = Some y)
           \<and> (\<forall>y \<in> set ys. \<forall>k. hotel_key ext y = Inr k \<longrightarrow> k \<notin> seen)
           \<and> (\<forall>x \<in> set hs. \<exists>k. hotel_key ext x = Inr k \<and>
                  (k \<in> seen \<or> (\<exists>y \<in> set ys. hotel_key ext y = Inr k)))"
  using assms
proof (induction hs arbitrary: seen acc out)
  case Nil
  then show ?case by simp
next
  case (Cons h hs)
  from Cons.prems obtain k where k: "hotel_key ext h = Inr k"
    by (auto simp: hotel_key_def split: sum.splits)
  show ?case
  proof (cases "k \<in> seen")
    case True
    with Cons.prems k have "deduplicate ext seen acc hs = Inr out"
      by (simp add: hotel_key_def)
    from Cons.IH[OF this] obtain ys where ys:
      "out = acc @ ys" "distinct (map (hotel_key ext) ys)"
      "\<forall>y \<in> set ys. find (\<lambda>x. hotel_key ext x = hotel_key ext y) hs = Some y"
      "\<forall>y \<in> set ys. \<forall>k. hotel_key ext y = Inr k \<longrightarrow> k \<notin> seen"
      "\<forall>x \<in> set hs. \<exists>k. hotel_key ext x = Inr k \<and>
          (k \<in> seen \<or> (\<exists>y \<in> set ys. hotel_key ext y = Inr k))"
      by blast
    have "hotel_key ext h \<notin> hotel_key ext ` set ys"
    proof
      assume "hotel_key ext h \<in> hotel_key ext ` set ys"
      then obtain y where "y \<in> set ys" "hotel_key ext y = Inr k" using k by force
      with ys(4) True show False by blast
    qed
    then have "\<forall>y \<in> set ys. find (\<lambda>x. hotel_key ext x = hotel_key ext y) (h # hs) = Some y"
      using ys(3) by fastforce
    moreover have "\<forall>x \<in> set (h # hs). \<exists>k. hotel_key ext x = Inr k \<and>
          (k \<in> seen \<or> (\<exists>y \<in> set ys. hotel_key ext y = Inr k))"
      using ys(5) k True by auto
    ultimately show ?thesis using ys(1,2,4) by blast
  next
    case False
    with Cons.prems k have "deduplicate ext (insert k seen) (acc @ [h]) hs = Inr out"
      by (simp add: hotel_key_def)
    from Cons.IH[OF this] obtain ys where ys:
      "out = (acc @ [h]) @ ys" "distinct (map (hotel_key ext) ys)"
      "\<forall>y \<in> set ys. find (\<lambda>x. hotel_key ext x = hotel_key ext y) hs = Some y"
      "\<forall>y \<in> set ys. \<forall>k'. hotel_key ext y = Inr k' \<longrightarrow> k' \<notin> insert k seen"
      "\<forall>x \<in> set hs. \<exists>k'. hotel_key ext x = Inr k' \<and>
          (k' \<in> insert k seen \<or> (\<exists>y \<in> set ys. hotel_key ext y = Inr k'))"
      by blast
    have a: "out = acc @ (h # ys)" using ys(1) by simp
    have nk: "hotel_key ext h \<notin> hotel_key ext ` set ys"
    proof
      assume "hotel_key ext h \<in> hotel_key ext ` set ys"
      then obtain y where "y \<in> set ys" "hotel_key ext y = Inr k" using k by force
      with ys(4) show False by blast
    qed
    then have b: "distinct (map (hotel_key ext) (h # ys))" using ys(2) by simp
    have c: "\<forall>y \<in> set (h # ys). find (\<lambda>x. hotel_key ext x = hotel_key ext y) (h # hs) = Some y"
      using ys(3) nk by fastforce
    have d: "\<forall>y \<in> set (h # ys). \<forall>k'. hotel_key ext y = Inr k' \<longrightarrow> k' \<notin> seen"
      using ys(4) k False by auto
    have e: "\<forall>x \<in> set (h # hs). \<exists>k'. hotel_key ext x = Inr k' \<and>
          (k' \<in> seen \<or> (\<exists>y \<in> set (h # ys). hotel_key ext y = Inr k'))"
    proof
      fix x assume "x \<in> set (h # hs)"
      then consider "x = h" | "x \<in> set hs" by auto
      then show "\<exists>k'. hotel_key ext x = Inr k' \<and>
          (k' \<in> seen \<or> (\<exists>y \<in> set (h # ys). hotel_key ext y = Inr k'))"
      proof cases
        case 1
        then show ?thesis using k by auto
      next
        case 2
        with ys(5) obtain k' where "hotel_key ext x = Inr k'"
          "k' \<in> insert k seen \<or> (\<exists>y \<in> set ys. hotel_key ext y = Inr k')" by blast
        then show ?thesis using k by auto
      qed
    qed
    from a b c d e show ?thesis by blast
  qed
qed

lemma distinct_map_sort_key:
  "distinct (map g (sort_key f xs)) = distinct (map g xs)"
  by (simp add: distinct_map)

lemma distinct_map_slice:
  "distinct (map g xs) \<Longrightarrow> distinct (map g (py_slice_upto n xs))"
  by (simp add: py_slice_upto_def take_map[symmetric])












lemma flight_score_range:
  "1 \<le> flight_calculate_deal_score price cabin stops \<and> flight_calculate_deal_score price cabin stops \<le> 10"
  by (simp add: flight_calculate_deal_score_def Let_def)

lemma hotel_score_range:
  "1 \<le> hotel_calculate_deal_score price rating \<and> hotel_calculate_deal_score price rating \<le> 10"
  by (simp add: hotel_calculate_deal_score_def Let_def)

lemma parse_amadeus_offer_fields:
  assumes "parse_amadeus_offer ext params offer = Inr d"
  shows "f_deal_score d = flight_calculate_deal_score (f_price d) (fp_cabin_class params) (f_stops d)"
    and "f_urgency d = flight_determine_urgency (f_deal_score d) (f_price d)"
    and "f_original_price d = (if f_deal_score d \<ge> 7 then Some (f_price d * 1.35) else None)"
    and "f_savings_percent d = (if f_deal_score d \<ge> 7 then Some 26 else None)"
    and "f_is_mistake_fare d = (f_deal_score d \<ge> 9)"
    and "f_expires_in_hours d = (if f_deal_score d \<ge> 8 then Some 12 else None)"
    and "f_source d = (lit ''amadeus'')"
    and "take 8 (f_id d) = (lit ''amadeus_'')"
  using assms unfolding parse_amadeus_offer_def and_then_Inr
  by (auto simp: Let_def split: option.splits)

lemma parse_amadeus_offers_mem:
  "d \<in> set (parse_amadeus_offers ext params offers) \<Longrightarrow>
   \<exists>offer. parse_amadeus_offer ext params offer = Inr d"
  by (induction offers) (auto split: sum.splits)

lemma parse_amadeus_hotel_fields:
  assumes "parse_amadeus_hotel ext params offer = Inr h"
  shows "h_deal_score h = hotel_calculate_deal_score (h_price_per_night h) (h_rating h)"
    and "h_urgency h = hotel_determine_urgency (h_deal_score h)"
    and "h_original_price h = (if h_deal_score h \<ge> 7 then JFloat (h_price_per_night h * 1.25) else JNull)"
    and "h_savings_percent h = (if h_deal_score h \<ge> 7 then JInt 20 else JNull)"
    and "h_source h = (lit ''amadeus'')"
    and "take 8 (h_id h) = (lit ''amadeus_'')"
  using assms unfolding parse_amadeus_hotel_def and_then_Inr
  by (auto simp: Let_def split: option.splits)

lemma parse_amadeus_hotels_mem:
  "h \<in> set (parse_amadeus_hotels ext params offers) \<Longrightarrow>
   \<exists>offer. parse_amadeus_hotel ext params offer = Inr h"
  by (induction offers) (auto split: sum.splits)


lemma amadeus_flight_deals_mem:
  "d \<in> set (amadeus_flight_deals ext self params) \<Longrightarrow>
   \<exists>offer. parse_amadeus_offer ext params offer = Inr d"
  unfolding amadeus_flight_deals_def flight_parse_amadeus_results_def
  by (auto simp: and_then_Inr Inr_and_then split: option.splits sum.splits
           dest: parse_amadeus_offers_mem)

lemma search_flights_mem:
  assumes "d \<in> set (search_flights ext self jitter params)"
  shows "d \<in> set (get_mock_deals ext jitter params) \<or>
         (\<exists>offer. parse_amadeus_offer ext params offer = Inr d)"
proof -
  let ?deals = "amadeus_flight_deals ext self params"
  from assms have "d \<in> set (if ?deals = [] then get_mock_deals ext jitter params else ?deals)"
    using py_slice_upto_subset unfolding search_flights_def Let_def by fastforce
  then show ?thesis
    by (auto split: if_splits dest: amadeus_flight_deals_mem)
qed

lemma get_mock_deals_fields:
  assumes "d \<in> set (get_mock_deals ext jitter params)"
  shows "f_deal_score d = 8" and "f_urgency d = HIGH" and "f_source d = (lit ''amadeus'')"
    and "take 8 (f_id d) = (lit ''amadeus_'')" and "f_savings_percent d = Some 26"
    and "f_original_price d = Some (real_of_int (py_int (f_price d * 1.35)))"
    and "f_stops d = 0" and "\<not> f_is_mistake_fare d"
  using assms by (auto simp: get_mock_deals_def Let_def)

lemma mock_hotel_results_fields:
  assumes "h \<in> set (mock_hotel_results location_lower nights idx rows)"
  shows "h_deal_score h = 8 \<and> h_urgency h = UL_HIGH \<and> h_source h = (lit ''amadeus'')
         \<and> take 8 (h_id h) = (lit ''amadeus_'') \<and> h_savings_percent h = JInt 20
         \<and> h_original_price h = JInt (py_int (h_price_per_night h * 1.25))
         \<and> (\<exists>s. h_name h = JStr s)"
  using assms by (induction location_lower nights idx rows rule: mock_hotel_results.induct) auto

lemma get_mock_hotels_fields:
  assumes "h \<in> set (get_mock_hotels ext params)"
  shows "h_deal_score h = 8 \<and> h_urgency h = UL_HIGH \<and> h_source h = (lit ''amadeus'')
         \<and> take 8 (h_id h) = (lit ''amadeus_'') \<and> h_savings_percent h = JInt 20
         \<and> h_original_price h = JInt (py_int (h_price_per_night h * 1.25))
         \<and> (\<exists>s. h_name h = JStr s)"
  using assms unfolding get_mock_hotels_def Let_def by (rule mock_hotel_results_fields)

lemma gathered_hotels_mem:
  assumes "h \<in> set (gathered_hotels ext self params)"
  shows "h \<in> set (get_mock_hotels ext params) \<or>
         (\<exists>offer. parse_amadeus_hotel ext params offer = Inr h)"
  using assms unfolding gathered_hotels_def hotel_parse_amadeus_results_def Let_def
  by (auto simp: and_then_Inr Inr_and_then split: option.splits sum.splits if_splits
           dest: parse_amadeus_hotels_mem)

lemma deduplicate_subset:
  "deduplicate ext seen acc hs = Inr out \<Longrightarrow> set out \<subseteq> set acc \<union> set hs"
proof (induction hs arbitrary: seen acc)
  case Nil
  then show ?case by simp
next
  case (Cons h hs)
  then show ?case by (fastforce split: sum.splits if_splits)
qed

lemma unique_sorted_top10_subset:
  "unique_sorted_top10 ext results = Inr out \<Longrightarrow> set out \<subseteq> set results"
  unfolding unique_sorted_top10_def and_then_Inr
  using py_slice_upto_subset deduplicate_subset by fastforce

lemma mock_restaurant_results_source:
  "r \<in> set (mock_restaurant_results location_lower idx rows) \<Longrightarrow> r_source r = (lit ''opentable'')"
  by (induction location_lower idx rows rule: mock_restaurant_results.induct) auto

section \<open>Source tags\<close>

text \<open>C10: every result of flight search and of hotel search carries the source
  \<open>amadeus\<close> and an identifier that starts with \<open>amadeus_\<close>, whether it was parsed from a
  provider offer or made by the mock generator, and every restaurant result carries the
  source \<open>opentable\<close>; no result carries the source \<open>mock\<close>.\<close>

theorem results_are_tagged_amadeus_or_opentable:
  "(\<forall>d \<in> set (search_flights ext fw jitter fparams).
      f_source d = (lit ''amadeus'') \<and> take 8 (f_id d) = (lit ''amadeus_'') \<and> f_source d \<noteq> (lit ''mock''))
   \<and> (\<forall>out. search_hotels ext hw hparams = Inr out \<longrightarrow>
        (\<forall>h \<in> set out.
           h_source h = (lit ''amadeus'') \<and> take 8 (h_id h) = (lit ''amadeus_'') \<and> h_source h \<noteq> (lit ''mock'')))
   \<and> (\<forall>r \<in> set (search_restaurants ext rparams).
        r_source r = (lit ''opentable'') \<and> r_source r \<noteq> (lit ''mock''))"
proof (intro conjI ballI allI impI)
  fix d assume "d \<in> set (search_flights ext fw jitter fparams)"
  then consider "d \<in> set (get_mock_deals ext jitter fparams)"
    | offer where "parse_amadeus_offer ext fparams offer = Inr d"
    using search_flights_mem by blast
  then have "f_source d = (lit ''amadeus'') \<and> take 8 (f_id d) = (lit ''amadeus_'')"
    by cases (simp_all add: get_mock_deals_fields(3,4) parse_amadeus_offer_fields(7,8))
  then show "f_source d = (lit ''amadeus'')" "take 8 (f_id d) = (lit ''amadeus_'')" "f_source d \<noteq> (lit ''mock'')"
    by simp_all
next
  fix out h assume "search_hotels ext hw hparams = Inr out" "h \<in> set out"
  then have "h \<in> set (gathered_hotels ext hw hparams)"
    using unique_sorted_top10_subset unfolding search_hotels_def by blast
  then consider "h \<in> set (get_mock_hotels ext hparams)"
    | offer where "parse_amadeus_hotel ext hparams offer = Inr h"
    using gathered_hotels_mem by blast
  then have "h_source h = (lit ''amadeus'') \<and> take 8 (h_id h) = (lit ''amadeus_'')"
    by cases (simp_all add: get_mock_hotels_fields parse_amadeus_hotel_fields(5,6))
  then show "h_source h = (lit ''amadeus'')" "take 8 (h_id h) = (lit ''amadeus_'')" "h_source h \<noteq> (lit ''mock'')"
    by simp_all
next
  fix r assume "r \<in> set (search_restaurants ext rparams)"
  then have "r \<in> set (get_mock_restaurants ext rparams)"
    using py_slice_upto_subset unfolding search_restaurants_def by fastforce
  then have "r_source r = (lit ''opentable'')"
    unfolding get_mock_restaurants_def Let_def by (rule mock_restaurant_results_source)
  then show "r_source r = (lit ''opentable'')" "r_source r \<noteq> (lit ''mock'')" by simp_all
qed

theorem results_are_tagged_witness:
  "search_flights example_externals no_flight_provider 0 jfk_cdg_business \<noteq> []
   \<and> map f_source (search_flights example_externals no_flight_provider 0 jfk_cdg_business)
       = [(lit ''amadeus'')]
   \<and> map f_id (search_flights example_externals cheap_flight_provider 0 jfk_cdg_business)
       = [(lit ''amadeus_1'')]
   \<and> map_sum id (map h_id)
         (search_hotels example_externals no_hotel_provider paris_three_nights)
       = Inr [(lit ''amadeus_paris_0''), (lit ''amadeus_paris_1''), (lit ''amadeus_paris_2'')]
   \<and> map r_source (search_restaurants example_externals tokyo_dinner)
       = [(lit ''opentable''), (lit ''opentable''), (lit ''opentable'')]"
proof -
  have a: "map f_source (search_flights example_externals no_flight_provider 0 jfk_cdg_business)
           = [(lit ''amadeus'')]"
    by code_simp
  have b: "map f_id (search_flights example_externals cheap_flight_provider 0 jfk_cdg_business)
           = [(lit ''amadeus_1'')]"
    by code_simp
  have c: "map_sum id (map h_id)
             (search_hotels example_externals no_hotel_provider paris_three_nights)
           = Inr [(lit ''amadeus_paris_0''), (lit ''amadeus_paris_1''), (lit ''amadeus_paris_2'')]"
    by code_simp
  have d: "map r_source (search_restaurants example_externals tokyo_dinner)
           = [(lit ''opentable''), (lit ''opentable''), (lit ''opentable'')]"
    by code_simp
  from a have e: "search_flights example_externals no_flight_provider 0 jfk_cdg_business \<noteq> []"
    by auto
  show ?thesis
    using results_are_tagged_amadeus_or_opentable
            [of example_externals no_flight_provider 0 jfk_cdg_business
                no_hotel_provider paris_three_nights tokyo_dinner]
          a b c d e
    by simp
qed

section \<open>Hotel deduplication\<close>

lemma distinct_map_filter_key:
  "distinct (map f xs) \<Longrightarrow>
   filter (\<lambda>h. f h = k) xs = [] \<or> (\<exists>y. filter (\<lambda>h. f h = k) xs = [y])"
proof (induction xs)
  case Nil
  then show ?case by simp
next
  case (Cons a xs)
  show ?case
  proof (cases "f a = k")
    case True
    with Cons.prems have "k \<notin> f ` set xs" by simp
    then have "\<forall>h \<in> set xs. f h \<noteq> k" by blast
    then have "filter (\<lambda>h. f h = k) xs = []" by (simp add: filter_empty_conv)
    with True show ?thesis by simp
  next
    case False
    with Cons show ?thesis by simp
  qed
qed

text \<open>C6 (as amended): whenever hotel search returns, the results in its output have
  pairwise different name keys (the name lowercased, spaces removed, cut to 20 characters),
  and each of them is the first result with its key in the list before deduplication,
  whatever the deal scores of the later ones. So for every key of that list the output
  holds at most one result with the key, and when it holds one it is the first result of
  the list with that key. When the list has at most ten different keys the output holds
  exactly one result for every key, the first one. With more keys the cut to ten results
  can remove that first result too, and then the output holds no result with the key.\<close>

theorem hotel_deduplication_keeps_first_occurrences:
  assumes "search_hotels ext self params = Inr out"
  shows "distinct (map (hotel_key ext) out)
     \<and> (\<forall>h \<in> set out.
           find (\<lambda>x. hotel_key ext x = hotel_key ext h) (gathered_hotels ext self params) = Some h)
     \<and> (\<forall>x \<in> set (gathered_hotels ext self params).
           \<exists>y. find (\<lambda>z. hotel_key ext z = hotel_key ext x) (gathered_hotels ext self params)
                 = Some y
               \<and> (filter (\<lambda>h. hotel_key ext h = hotel_key ext x) out = [y]
                    \<or> filter (\<lambda>h. hotel_key ext h = hotel_key ext x) out = []))
     \<and> (card (hotel_key ext ` set (gathered_hotels ext self params)) \<le> 10 \<longrightarrow>
           hotel_key ext ` set out = hotel_key ext ` set (gathered_hotels ext self params)
           \<and> (\<forall>x \<in> set (gathered_hotels ext self params).
                 \<exists>y. find (\<lambda>z. hotel_key ext z = hotel_key ext x)
                         (gathered_hotels ext self params) = Some y
                     \<and> filter (\<lambda>h. hotel_key ext h = hotel_key ext x) out = [y]))"
proof -
  define results where "results = gathered_hotels ext self params"
  from assms have "unique_sorted_top10 ext results = Inr out"
    by (simp add: search_hotels_def results_def)
  then obtain u where u: "deduplicate ext {} [] results = Inr u"
    and out: "out = py_slice_upto 10 (sort_key hotel_sort_key u)"
    unfolding unique_sorted_top10_def and_then_Inr by auto
  from deduplicate_first_occurrences[OF u] have
    d: "distinct (map (hotel_key ext) u)"
    and f: "\<forall>y \<in> set u. find (\<lambda>x. hotel_key ext x = hotel_key ext y) results = Some y"
    and c: "\<forall>x \<in> set results. \<exists>k. hotel_key ext x = Inr k \<and> (\<exists>y \<in> set u. hotel_key ext y = Inr k)"
    by auto
  have sub: "set out \<subseteq> set u" using py_slice_upto_subset[of 10] out by fastforce
  have dist: "distinct (map (hotel_key ext) out)"
    unfolding out by (intro distinct_map_slice) (simp add: distinct_map_sort_key d)
  have first: "\<forall>h \<in> set out. find (\<lambda>x. hotel_key ext x = hotel_key ext h) results = Some h"
    using f sub by blast
  have usub: "set u \<subseteq> set results"
    using f by (auto dest!: bspec simp: find_Some_iff)
  have keys: "hotel_key ext ` set u = hotel_key ext ` set results"
  proof
    show "hotel_key ext ` set u \<subseteq> hotel_key ext ` set results" using usub by blast
    show "hotel_key ext ` set results \<subseteq> hotel_key ext ` set u"
    proof
      fix k assume "k \<in> hotel_key ext ` set results"
      then obtain x where "x \<in> set results" "k = hotel_key ext x" by blast
      with c show "k \<in> hotel_key ext ` set u" by force
    qed
  qed
  have found: "\<exists>y. find (\<lambda>z. hotel_key ext z = hotel_key ext x) results = Some y"
    if "x \<in> set results" for x
    using that by (cases "find (\<lambda>z. hotel_key ext z = hotel_key ext x) results")
                  (auto simp: find_None_iff)
  have single: "filter (\<lambda>h. hotel_key ext h = hotel_key ext x) out = [y]"
    if y: "find (\<lambda>z. hotel_key ext z = hotel_key ext x) results = Some y"
      and ne: "filter (\<lambda>h. hotel_key ext h = hotel_key ext x) out \<noteq> []" for x y
  proof -
    from distinct_map_filter_key[OF dist, of "hotel_key ext x"] ne
    obtain y' where y': "filter (\<lambda>h. hotel_key ext h = hotel_key ext x) out = [y']"
      by blast
    then have "y' \<in> set (filter (\<lambda>h. hotel_key ext h = hotel_key ext x) out)" by simp
    then have mem: "y' \<in> set out" and k: "hotel_key ext y' = hotel_key ext x" by simp_all
    from first mem have "find (\<lambda>z. hotel_key ext z = hotel_key ext y') results = Some y'"
      by blast
    with k y have "y' = y" by simp
    with y' show ?thesis by simp
  qed
  have atmost: "\<forall>x \<in> set results.
           \<exists>y. find (\<lambda>z. hotel_key ext z = hotel_key ext x) results = Some y
               \<and> (filter (\<lambda>h. hotel_key ext h = hotel_key ext x) out = [y]
                    \<or> filter (\<lambda>h. hotel_key ext h = hotel_key ext x) out = [])"
  proof
    fix x assume "x \<in> set results"
    then obtain y where y: "find (\<lambda>z. hotel_key ext z = hotel_key ext x) results = Some y"
      using found by blast
    have "filter (\<lambda>h. hotel_key ext h = hotel_key ext x) out = [y]
          \<or> filter (\<lambda>h. hotel_key ext h = hotel_key ext x) out = []"
      using single[OF y] by blast
    with y show "\<exists>y. find (\<lambda>z. hotel_key ext z = hotel_key ext x) results = Some y
               \<and> (filter (\<lambda>h. hotel_key ext h = hotel_key ext x) out = [y]
                    \<or> filter (\<lambda>h. hotel_key ext h = hotel_key ext x) out = [])"
      by blast
  qed
  have allkeys: "hotel_key ext ` set out = hotel_key ext ` set results"
    if "card (hotel_key ext ` set results) \<le> 10"
  proof -
    have "length u = card (hotel_key ext ` set u)"
      using d by (metis distinct_card length_map set_map)
    with that keys have "length u \<le> 10" by simp
    then have "out = sort_key hotel_sort_key u"
      unfolding out by (simp add: py_slice_upto_def)
    then show ?thesis using keys by simp
  qed
  have exactly: "\<forall>x \<in> set results.
           \<exists>y. find (\<lambda>z. hotel_key ext z = hotel_key ext x) results = Some y
               \<and> filter (\<lambda>h. hotel_key ext h = hotel_key ext x) out = [y]"
    if le: "card (hotel_key ext ` set results) \<le> 10"
  proof
    fix x assume x: "x \<in> set results"
    then obtain y where y: "find (\<lambda>z. hotel_key ext z = hotel_key ext x) results = Some y"
      using found by blast
    from x allkeys[OF le] have "hotel_key ext x \<in> hotel_key ext ` set out" by blast
    then obtain h where "h \<in> set out" "hotel_key ext h = hotel_key ext x" by auto
    then have "filter (\<lambda>h. hotel_key ext h = hotel_key ext x) out \<noteq> []"
      by (auto simp: filter_empty_conv)
    from single[OF y this] y
    show "\<exists>y. find (\<lambda>z. hotel_key ext z = hotel_key ext x) results = Some y
               \<and> filter (\<lambda>h. hotel_key ext h = hotel_key ext x) out = [y]"
      by blast
  qed
  from dist first atmost allkeys exactly show ?thesis unfolding results_def by blast
qed

theorem hotel_deduplication_witness:
  "map_sum id (map h_name)
     (search_hotels example_externals two_hotel_provider paris_three_nights)
     = Inr [JStr (lit ''Ritz Paris'')]
   \<and> map h_name (gathered_hotels example_externals two_hotel_provider paris_three_nights)
     = [JStr (lit ''Ritz Paris''), JStr (lit ''RITZ  PARIS'')]
   \<and> map (hotel_key example_externals)
         (gathered_hotels example_externals two_hotel_provider paris_three_nights)
     = [Inr (lit ''ritzparis''), Inr (lit ''ritzparis'')]
   \<and> map (hotel_key example_externals)
         (gathered_hotels example_externals accented_hotel_provider paris_three_nights)
     = [Inr (lit ''h'' @ [244] @ lit ''telritz''), Inr (lit ''h'' @ [244] @ lit ''telritz'')]
   \<and> map_sum id (map h_name)
         (search_hotels example_externals accented_hotel_provider paris_three_nights)
     = Inr [JStr (lit ''H'' @ [212] @ lit ''TEL RITZ'')]"
proof -
  let ?g = "gathered_hotels example_externals two_hotel_provider paris_three_nights"
  have g: "map h_name ?g = [JStr (lit ''Ritz Paris''), JStr (lit ''RITZ  PARIS'')]"
    by code_simp
  have k: "map (hotel_key example_externals) ?g
           = [Inr (lit ''ritzparis''), Inr (lit ''ritzparis'')]"
    by code_simp
  have n: "map_sum id (map h_name)
             (search_hotels example_externals two_hotel_provider paris_three_nights)
           = Inr [JStr (lit ''Ritz Paris'')]"
    by code_simp
  have ak: "map (hotel_key example_externals)
              (gathered_hotels example_externals accented_hotel_provider paris_three_nights)
            = [Inr (lit ''h'' @ [244] @ lit ''telritz''),
               Inr (lit ''h'' @ [244] @ lit ''telritz'')]"
    by code_simp
  have an: "map_sum id (map h_name)
              (search_hotels example_externals accented_hotel_provider paris_three_nights)
            = Inr [JStr (lit ''H'' @ [212] @ lit ''TEL RITZ'')]"
    by code_simp
  from n obtain out where out:
    "search_hotels example_externals two_hotel_provider paris_three_nights = Inr out"
    by (cases "search_hotels example_externals two_hotel_provider paris_three_nights") auto
  from hotel_deduplication_keeps_first_occurrences[OF out]
  have "distinct (map (hotel_key example_externals) out)" by (rule conjunct1)
  with g k n ak an show ?thesis by simp
qed

theorem hotel_deduplication_counterexample:
  "map h_name (gathered_hotels example_externals twelve_hotel_provider paris_three_nights)
     = [JStr (lit ''Hotel A''), JStr (lit ''Hotel B''), JStr (lit ''Hotel C''), JStr (lit ''Hotel D''),
        JStr (lit ''Hotel E''), JStr (lit ''Hotel F''), JStr (lit ''Hotel G''), JStr (lit ''Hotel H''),
        JStr (lit ''Hotel I''), JStr (lit ''Hotel J''), JStr (lit ''Hotel K''), JStr (lit ''HOTEL K'')]
   \<and> name_key example_externals (JStr (lit ''Hotel K'')) = name_key example_externals (JStr (lit ''HOTEL K''))
   \<and> map_sum id (map h_name)
         (search_hotels example_externals twelve_hotel_provider paris_three_nights)
     = Inr [JStr (lit ''Hotel A''), JStr (lit ''Hotel B''), JStr (lit ''Hotel C''), JStr (lit ''Hotel D''),
            JStr (lit ''Hotel E''), JStr (lit ''Hotel F''), JStr (lit ''Hotel G''), JStr (lit ''Hotel H''),
            JStr (lit ''Hotel I''), JStr (lit ''Hotel J'')]
   \<and> map h_name (gathered_hotels example_externals three_hotel_provider paris_three_nights)
     = [JStr (lit ''Ritz Paris''), JStr (lit ''RITZ  PARIS''), JStr (lit ''ritz paris'')]
   \<and> map (hotel_key example_externals)
         (gathered_hotels example_externals three_hotel_provider paris_three_nights)
     = [Inr (lit ''ritzparis''), Inr (lit ''ritzparis''), Inr (lit ''ritzparis'')]
   \<and> map_sum id (map h_name)
         (search_hotels example_externals three_hotel_provider paris_three_nights)
     = Inr [JStr (lit ''Ritz Paris'')]"
  by (intro conjI; code_simp)

section \<open>The mock fallback\<close>




section \<open>The mock flight deal\<close>

lemma py_upper_JFK: "py_upper ext (lit ''JFK'') = lit ''JFK''"
  by (simp add: py_upper_def latin1_def upper_cp_def lit_def)

lemma py_upper_CDG: "py_upper ext (lit ''CDG'') = lit ''CDG''"
  by (simp add: py_upper_def latin1_def upper_cp_def lit_def)

text \<open>C7 (as amended): a flight search for origin JFK, destination CDG and cabin BUSINESS
  with no provider configured and \<open>max_results\<close> at least 1 returns exactly one mock deal.
  Its price is 1847 plus the jitter, so within 200 of 1847; its deal score is 8, its
  urgency high, it has no stops and is not a mistake fare. Every other field of the model
  is fixed by the search parameters, except the original price: that is the jittered
  price times 1.35, truncated, and moves with the jitter.\<close>

theorem jfk_cdg_mock_deal:
  assumes "fw_amadeus self = None"
    and "fp_origin params = (lit ''JFK'')" and "fp_destination params = (lit ''CDG'')"
    and "fp_cabin_class params = BUSINESS"
    and "1 \<le> fp_max_results params"
    and "- 200 \<le> jitter" and "jitter \<le> 200"
  shows "search_flights ext self jitter params =
           [\<lparr>f_id = (lit ''amadeus_JFK_CDG''),
             f_origin = (lit ''JFK''),
             f_destination = (lit ''CDG''),
             f_price = real_of_int (1847 + jitter),
             f_original_price =
               Some (real_of_int (py_int (real_of_int (1847 + jitter) * 1.35))),
             f_cabin_class = (lit ''BUSINESS''),
             f_stops = 0,
             f_deal_score = 8,
             f_savings_percent = Some 26,
             f_urgency = HIGH,
             f_expires_in_hours = Some 6,
             f_is_mistake_fare = False,
             f_source = (lit ''amadeus'')\<rparr>]
         \<and> \<bar>real_of_int (1847 + jitter) - 1847\<bar> \<le> 200"
proof -
  have "amadeus_flight_deals ext self params = []"
    using assms(1) by (simp add: amadeus_flight_deals_def)
  moreover have "map_of mock_routes ((lit ''JFK''), (lit ''CDG'')) = Some 1847"
    by (simp add: mock_routes_def)
  ultimately show ?thesis
    using assms(2-7)
    by (simp add: search_flights_def get_mock_deals_def Let_def py_upper_JFK py_upper_CDG
                  cabin_value_def py_slice_upto_def lit_append)
qed

theorem jfk_cdg_mock_deal_witness:
  "fw_amadeus no_flight_provider = None
   \<and> fp_origin jfk_cdg_business = (lit ''JFK'') \<and> fp_destination jfk_cdg_business = (lit ''CDG'')
   \<and> fp_cabin_class jfk_cdg_business = BUSINESS \<and> 1 \<le> fp_max_results jfk_cdg_business
   \<and> search_flights example_externals no_flight_provider 0 jfk_cdg_business =
        [\<lparr>f_id = (lit ''amadeus_JFK_CDG''), f_origin = (lit ''JFK''), f_destination = (lit ''CDG''),
          f_price = 1847, f_original_price = Some 2493, f_cabin_class = (lit ''BUSINESS''),
          f_stops = 0, f_deal_score = 8, f_savings_percent = Some 26, f_urgency = HIGH,
          f_expires_in_hours = Some 6, f_is_mistake_fare = False,
          f_source = (lit ''amadeus'')\<rparr>]"
proof -
  have h: "fw_amadeus no_flight_provider = None"
    "fp_origin jfk_cdg_business = (lit ''JFK'')" "fp_destination jfk_cdg_business = (lit ''CDG'')"
    "fp_cabin_class jfk_cdg_business = BUSINESS" "1 \<le> fp_max_results jfk_cdg_business"
    by (simp_all add: no_flight_provider_def jfk_cdg_business_def)
  have t: "py_int (1847 * 1.35) = 2493"
    by (simp add: py_int_def)
  from jfk_cdg_mock_deal[OF h, of 0 example_externals] t h show ?thesis
    by simp
qed

theorem mock_original_price_counterexample:
  "map f_original_price
     (search_flights example_externals no_flight_provider 0 jfk_cdg_business) = [Some 2493]
   \<and> map f_original_price
     (search_flights example_externals no_flight_provider 1 jfk_cdg_business) = [Some 2494]"
  by (intro conjI; code_simp)

section \<open>The outbound message sender\<close>

text \<open>C8: the sender never raises. Without both credentials it returns the preview
  (success and mock true, the message under \<open>preview\<close>) and posts nothing. With them it
  posts once, and a post that raises, an answer whose status is not 200, and a 200 answer
  whose body does not decode each give a result with success false and the error text.\<close>

theorem send_message_never_raises:
  "(\<exists>result. fst (send_message net self message) = Inr result)
   \<and> (\<not> is_configured self \<longrightarrow>
        send_message net self message =
          (Inr (JObj [((lit ''success''), JBool True),
                      ((lit ''mock''), JBool True),
                      ((lit ''message''), JStr (lit ''WhatsApp not configured - showing preview'')),
                      ((lit ''preview''), message)]), []))
   \<and> (is_configured self \<longrightarrow>
        snd (send_message net self message) = [message_request self message])
   \<and> (is_configured self \<longrightarrow>
        (\<forall>e. post net (message_request self message) = Inl e \<longrightarrow>
           fst (send_message net self message) =
             Inr (JObj [((lit ''success''), JBool False),
                        ((lit ''error''), JStr (str_of_error net e))])))
   \<and> (is_configured self \<longrightarrow>
        (\<forall>response. post net (message_request self message) = Inr response
              \<and> status_code response \<noteq> 200 \<longrightarrow>
           fst (send_message net self message) =
             Inr (JObj [((lit ''success''), JBool False),
                        ((lit ''error''), JStr (response_text response))])))
   \<and> (is_configured self \<longrightarrow>
        (\<forall>response e. post net (message_request self message) = Inr response
              \<and> status_code response = 200 \<and> response_json response = Inl e \<longrightarrow>
           fst (send_message net self message) =
             Inr (JObj [((lit ''success''), JBool False),
                        ((lit ''error''), JStr (str_of_error net e))])))"
proof (cases "is_configured self")
  case False
  then show ?thesis by (simp add: send_message_def)
next
  case True
  show ?thesis
  proof (cases "post net (message_request self message)")
    case (Inl e)
    with True show ?thesis
      by (simp add: send_message_def deliver_def and_then_def)
  next
    case (Inr response)
    show ?thesis
    proof (cases "status_code response = 200")
      case False
      with True Inr show ?thesis
        by (simp add: send_message_def deliver_def and_then_def)
    next
      case ok: True
      with True Inr show ?thesis
        by (cases "response_json response")
           (simp_all add: send_message_def deliver_def and_then_def)
    qed
  qed
qed

theorem send_message_witness:
  "\<not> is_configured unconfigured_client
   \<and> send_message broken_transport unconfigured_client text_message =
        (Inr (JObj [((lit ''success''), JBool True),
                    ((lit ''mock''), JBool True),
                    ((lit ''message''), JStr (lit ''WhatsApp not configured - showing preview'')),
                    ((lit ''preview''), text_message)]), [])
   \<and> is_configured configured_client
   \<and> fst (send_message broken_transport configured_client text_message) =
        Inr (JObj [((lit ''success''), JBool False), ((lit ''error''), JStr (lit ''error''))])
   \<and> fst (send_message rejecting_transport configured_client text_message) =
        Inr (JObj [((lit ''success''), JBool False), ((lit ''error''), JStr (lit ''denied''))])"
proof -
  have u: "\<not> is_configured unconfigured_client"
    by (simp add: is_configured_def unconfigured_client_def env_truthy_def)
  have c: "is_configured configured_client"
    by (simp add: is_configured_def configured_client_def env_truthy_def)
  have b: "post broken_transport (message_request configured_client text_message)
           = Inl (UpstreamError (lit ''timeout''))"
    "str_of_error broken_transport (UpstreamError (lit ''timeout'')) = (lit ''error'')"
    by (simp_all add: broken_transport_def)
  have r: "post rejecting_transport (message_request configured_client text_message)
           = Inr \<lparr>status_code = 401, response_text = (lit ''denied''),
                   response_json = Inl JSONDecodeError\<rparr>"
    by (simp add: rejecting_transport_def)
  from send_message_never_raises[of broken_transport unconfigured_client text_message] u
  have 1: "send_message broken_transport unconfigured_client text_message =
        (Inr (JObj [((lit ''success''), JBool True),
                    ((lit ''mock''), JBool True),
                    ((lit ''message''), JStr (lit ''WhatsApp not configured - showing preview'')),
                    ((lit ''preview''), text_message)]), [])"
    by blast
  from send_message_never_raises[of broken_transport configured_client text_message] c b
  have 2: "fst (send_message broken_transport configured_client text_message) =
        Inr (JObj [((lit ''success''), JBool False), ((lit ''error''), JStr (lit ''error''))])"
    by simp
  from send_message_never_raises[of rejecting_transport configured_client text_message] c r
  have 3: "fst (send_message rejecting_transport configured_client text_message) =
        Inr (JObj [((lit ''success''), JBool False), ((lit ''error''), JStr (lit ''denied''))])"
    by simp
  from u c 1 2 3 show ?thesis by blast
qed

section \<open>Savings and original price\<close>

lemma parse_curated_hotel_fields:
  assumes "parse_curated_hotel ext params hotel_data = Inr h"
  shows "py_get hotel_data (lit ''originalPrice'') JNull = Inr (h_original_price h)"
    and "py_get hotel_data (lit ''savingsPercent'') JNull = Inr (h_savings_percent h)"
    and "h_source h = (lit ''curated'')"
  using assms unfolding parse_curated_hotel_def and_then_Inr
  by (auto simp: Let_def split: option.splits)

text \<open>C2 (as amended): for every flight and hotel result parsed from a provider offer,
  savings percent is set exactly when original price is set, exactly when the deal score
  is at least 7, and then the original price is the price times 1.35 for a flight and the
  price per night times 1.25 for a hotel. Every result of the mock generators
  \<open>_get_mock_deals\<close> and \<open>_get_mock_hotels\<close> has a deal score of at least 7 and both
  fields set, the original price being that product truncated to an integer. The two
  results written out by hand, \<open>_create_mock_deal\<close> and \<open>_create_mock_hotel\<close>, have a
  deal score of at least 7 and both fields set to fixed numbers that are not the product:
  the price 1847 with the original price 2497, and the price per night 895 with the
  original price 1195. A curated hotel result takes both fields from the curated record,
  whatever its score.\<close>

theorem savings_and_original_price:
  "(\<forall>deals. flight_parse_amadeus_results ext results fparams = Inr deals \<longrightarrow>
      (\<forall>d \<in> set deals.
         (f_savings_percent d \<noteq> None \<longleftrightarrow> 7 \<le> f_deal_score d)
         \<and> (f_original_price d \<noteq> None \<longleftrightarrow> 7 \<le> f_deal_score d)
         \<and> (7 \<le> f_deal_score d \<longrightarrow> f_original_price d = Some (f_price d * 1.35))))
   \<and> (\<forall>hotels. hotel_parse_amadeus_results ext results hparams = Inr hotels \<longrightarrow>
      (\<forall>h \<in> set hotels.
         (h_savings_percent h \<noteq> JNull \<longleftrightarrow> 7 \<le> h_deal_score h)
         \<and> (h_original_price h \<noteq> JNull \<longleftrightarrow> 7 \<le> h_deal_score h)
         \<and> (7 \<le> h_deal_score h \<longrightarrow>
               h_original_price h = JFloat (h_price_per_night h * 1.25))))
   \<and> (\<forall>d \<in> set (get_mock_deals ext jitter fparams).
         7 \<le> f_deal_score d \<and> f_savings_percent d \<noteq> None
         \<and> f_original_price d = Some (real_of_int (py_int (f_price d * 1.35))))
   \<and> (\<forall>h \<in> set (get_mock_hotels ext hparams).
         7 \<le> h_deal_score h \<and> h_savings_percent h \<noteq> JNull
         \<and> h_original_price h = JInt (py_int (h_price_per_night h * 1.25)))
   \<and> (\<forall>h. parse_curated_hotel ext hparams hotel_data = Inr h \<longrightarrow>
         py_get hotel_data (lit ''originalPrice'') JNull = Inr (h_original_price h)
         \<and> py_get hotel_data (lit ''savingsPercent'') JNull = Inr (h_savings_percent h))
   \<and> 7 \<le> f_deal_score create_mock_deal
   \<and> f_savings_percent create_mock_deal = Some 26
   \<and> f_price create_mock_deal = 1847
   \<and> f_original_price create_mock_deal = Some 2497
   \<and> f_price create_mock_deal * 1.35 \<noteq> 2497
   \<and> 7 \<le> h_deal_score create_mock_hotel
   \<and> h_savings_percent create_mock_hotel = JInt 25
   \<and> h_price_per_night create_mock_hotel = 895
   \<and> h_original_price create_mock_hotel = JInt 1195
   \<and> h_price_per_night create_mock_hotel * 1.25 \<noteq> 1195"
proof (intro conjI allI impI ballI)
  fix deals d
  assume "flight_parse_amadeus_results ext results fparams = Inr deals" "d \<in> set deals"
  then obtain offer where o: "parse_amadeus_offer ext fparams offer = Inr d"
    unfolding flight_parse_amadeus_results_def and_then_Inr
    using parse_amadeus_offers_mem by blast
  show "f_savings_percent d \<noteq> None \<longleftrightarrow> 7 \<le> f_deal_score d"
    using parse_amadeus_offer_fields(4)[OF o] by simp
  show "f_original_price d \<noteq> None \<longleftrightarrow> 7 \<le> f_deal_score d"
    using parse_amadeus_offer_fields(3)[OF o]
    by (cases "7 \<le> f_deal_score d") (simp_all del: not_None_eq)
  show "f_original_price d = Some (f_price d * 1.35)" if "7 \<le> f_deal_score d"
    using parse_amadeus_offer_fields(3)[OF o] that by simp
next
  fix hotels h
  assume "hotel_parse_amadeus_results ext results hparams = Inr hotels" "h \<in> set hotels"
  then obtain offer where o: "parse_amadeus_hotel ext hparams offer = Inr h"
    unfolding hotel_parse_amadeus_results_def and_then_Inr
    using parse_amadeus_hotels_mem by blast
  show "h_savings_percent h \<noteq> JNull \<longleftrightarrow> 7 \<le> h_deal_score h"
    using parse_amadeus_hotel_fields(4)[OF o] by simp
  show "h_original_price h \<noteq> JNull \<longleftrightarrow> 7 \<le> h_deal_score h"
    using parse_amadeus_hotel_fields(3)[OF o]
    by (cases "7 \<le> h_deal_score h") simp_all
  show "h_original_price h = JFloat (h_price_per_night h * 1.25)" if "7 \<le> h_deal_score h"
    using parse_amadeus_hotel_fields(3)[OF o] that by simp
next
  fix d assume d: "d \<in> set (get_mock_deals ext jitter fparams)"
  show "7 \<le> f_deal_score d" using get_mock_deals_fields(1)[OF d] by simp
  show "f_savings_percent d \<noteq> None" using get_mock_deals_fields(5)[OF d] by simp
  show "f_original_price d = Some (real_of_int (py_int (f_price d * 1.35)))"
    using get_mock_deals_fields(6)[OF d] .
next
  fix h assume h: "h \<in> set (get_mock_hotels ext hparams)"
  show "7 \<le> h_deal_score h" using get_mock_hotels_fields[OF h] by simp
  show "h_savings_percent h \<noteq> JNull" using get_mock_hotels_fields[OF h] by simp
  show "h_original_price h = JInt (py_int (h_price_per_night h * 1.25))"
    using get_mock_hotels_fields[OF h] by simp
next
  fix h assume h: "parse_curated_hotel ext hparams hotel_data = Inr h"
  show "py_get hotel_data (lit ''originalPrice'') JNull = Inr (h_original_price h)"
    using parse_curated_hotel_fields(1)[OF h] .
  show "py_get hotel_data (lit ''savingsPercent'') JNull = Inr (h_savings_percent h)"
    using parse_curated_hotel_fields(2)[OF h] .
next
  show "7 \<le> f_deal_score create_mock_deal" by (simp add: create_mock_deal_def)
  show "f_savings_percent create_mock_deal = Some 26" by (simp add: create_mock_deal_def)
  show "f_price create_mock_deal = 1847" by (simp add: create_mock_deal_def)
  show "f_original_price create_mock_deal = Some 2497" by (simp add: create_mock_deal_def)
  show "f_price create_mock_deal * 1.35 \<noteq> 2497" by (simp add: create_mock_deal_def)
  show "7 \<le> h_deal_score create_mock_hotel" by (simp add: create_mock_hotel_def)
  show "h_savings_percent create_mock_hotel = JInt 25" by (simp add: create_mock_hotel_def)
  show "h_price_per_night create_mock_hotel = 895" by (simp add: create_mock_hotel_def)
  show "h_original_price create_mock_hotel = JInt 1195" by (simp add: create_mock_hotel_def)
  show "h_price_per_night create_mock_hotel * 1.25 \<noteq> 1195"
    by (simp add: create_mock_hotel_def)
qed

theorem savings_and_original_price_witness:
  "flight_parse_amadeus_results example_externals one_cheap_nonstop_offer jfk_cdg_business
     = Inr [\<lparr>f_id = (lit ''amadeus_1''), f_origin = (lit ''JFK''), f_destination = (lit ''CDG''),
              f_price = 1500, f_original_price = Some 2025, f_cabin_class = (lit ''BUSINESS''),
              f_stops = 0, f_deal_score = 9, f_savings_percent = Some 26,
              f_urgency = CRITICAL, f_expires_in_hours = Some 12, f_is_mistake_fare = True,
              f_source = (lit ''amadeus'')\<rparr>]
   \<and> (2025::real) = 1500 * 1.35"
proof -
  let ?d = "\<lparr>f_id = (lit ''amadeus_1''), f_origin = (lit ''JFK''), f_destination = (lit ''CDG''),
              f_price = 1500, f_original_price = Some 2025, f_cabin_class = (lit ''BUSINESS''),
              f_stops = 0, f_deal_score = 9, f_savings_percent = Some 26,
              f_urgency = CRITICAL, f_expires_in_hours = Some 12, f_is_mistake_fare = True,
              f_source = (lit ''amadeus'')\<rparr>"
  have ev: "flight_parse_amadeus_results example_externals one_cheap_nonstop_offer
              jfk_cdg_business = Inr [?d]"
    by code_simp
  from savings_and_original_price
         [of example_externals one_cheap_nonstop_offer jfk_cdg_business]
  have "\<forall>deals. flight_parse_amadeus_results example_externals one_cheap_nonstop_offer
                  jfk_cdg_business = Inr deals \<longrightarrow>
          (\<forall>d \<in> set deals.
             (f_savings_percent d \<noteq> None \<longleftrightarrow> 7 \<le> f_deal_score d)
             \<and> (f_original_price d \<noteq> None \<longleftrightarrow> 7 \<le> f_deal_score d)
             \<and> (7 \<le> f_deal_score d \<longrightarrow> f_original_price d = Some (f_price d * 1.35)))"
    by (rule conjunct1)
  with ev have "7 \<le> f_deal_score ?d \<longrightarrow> f_original_price ?d = Some (f_price ?d * 1.35)"
    by (metis list.set_intros(1))
  then have "(2025::real) = 1500 * 1.35"
    by (simp only: FlightDeal.simps option.inject)
  with ev show ?thesis by blast
qed

theorem savings_and_original_price_counterexample:
  "map_sum id (map h_deal_score)
      (parse_curated_results example_externals curated_records paris_three_nights)
     = Inr [11, 9]
   \<and> map_sum id (map h_savings_percent)
      (parse_curated_results example_externals curated_records paris_three_nights)
     = Inr [JNull, JNull]
   \<and> map_sum id (map h_original_price)
      (parse_curated_results example_externals curated_records paris_three_nights)
     = Inr [JNull, JNull]
   \<and> map f_price (get_mock_deals example_externals 0 jfk_cdg_business) = [1847]
   \<and> map f_original_price (get_mock_deals example_externals 0 jfk_cdg_business) = [Some 2493]
   \<and> (1847::real) * 1.35 \<noteq> 2493
   \<and> f_price create_mock_deal = 1847
   \<and> f_original_price create_mock_deal = Some 2497
   \<and> (1847::real) * 1.35 \<noteq> 2497
   \<and> h_price_per_night create_mock_hotel = 895
   \<and> h_original_price create_mock_hotel = JInt 1195
   \<and> (895::real) * 1.25 \<noteq> 1195"
proof (intro conjI)
  show "map_sum id (map h_deal_score)
      (parse_curated_results example_externals curated_records paris_three_nights)
     = Inr [11, 9]"
    by code_simp
  show "map_sum id (map h_savings_percent)
      (parse_curated_results example_externals curated_records paris_three_nights)
     = Inr [JNull, JNull]"
    by code_simp
  show "map_sum id (map h_original_price)
      (parse_curated_results example_externals curated_records paris_three_nights)
     = Inr [JNull, JNull]"
    by code_simp
  show "map f_price (get_mock_deals example_externals 0 jfk_cdg_business) = [1847]"
    by (simp add: get_mock_deals_def jfk_cdg_business_def Let_def mock_routes_def
                  py_upper_JFK py_upper_CDG)
  show "map f_original_price (get_mock_deals example_externals 0 jfk_cdg_business) = [Some 2493]"
    by (simp add: get_mock_deals_def jfk_cdg_business_def Let_def mock_routes_def
                  py_upper_JFK py_upper_CDG py_int_def)
  show "(1847::real) * 1.35 \<noteq> 2493"
    by simp
  show "f_price create_mock_deal = 1847" by (simp add: create_mock_deal_def)
  show "f_original_price create_mock_deal = Some 2497" by (simp add: create_mock_deal_def)
  show "(1847::real) * 1.35 \<noteq> 2497" by simp
  show "h_price_per_night create_mock_hotel = 895" by (simp add: create_mock_hotel_def)
  show "h_original_price create_mock_hotel = JInt 1195" by (simp add: create_mock_hotel_def)
  show "(895::real) * 1.25 \<noteq> 1195" by simp
qed

section \<open>Deal scores and urgency\<close>

text \<open>C1, where it fails: the curated parse stores the computed deal score plus one,
  without clamping it again, and takes the urgency from the score before the boost. A
  curated hotel at 200 a night rated 4.5 gets the deal score 11, outside 1..10; one at 400
  a night with the default rating gets the deal score 9 with urgency high, where the step
  function gives critical for 9.\<close>

theorem curated_boost_leaves_the_range:
  "map_sum id (map h_deal_score)
      (parse_curated_results example_externals curated_records paris_three_nights)
     = Inr [11, 9]
   \<and> map_sum id (map h_urgency)
      (parse_curated_results example_externals curated_records paris_three_nights)
     = Inr [UL_CRITICAL, UL_HIGH]
   \<and> hotel_determine_urgency 9 = UL_CRITICAL"
  by (intro conjI; code_simp)

text \<open>On the paths the default searches use (provider parse and mock generator) the
  claim holds: the deal score is between 1 and 10 and the urgency is the step function of
  the score.\<close>

theorem default_search_scores_in_range:
  "(\<forall>d \<in> set (search_flights ext fw jitter fparams).
      1 \<le> f_deal_score d \<and> f_deal_score d \<le> 10
      \<and> f_urgency d = flight_determine_urgency (f_deal_score d) (f_price d))
   \<and> (\<forall>out. search_hotels ext hw hparams = Inr out \<longrightarrow>
        (\<forall>h \<in> set out.
           1 \<le> h_deal_score h \<and> h_deal_score h \<le> 10
           \<and> h_urgency h = hotel_determine_urgency (h_deal_score h)))"
proof (intro conjI ballI allI impI)
  fix d assume "d \<in> set (search_flights ext fw jitter fparams)"
  then consider "d \<in> set (get_mock_deals ext jitter fparams)"
    | offer where "parse_amadeus_offer ext fparams offer = Inr d"
    using search_flights_mem by blast
  then have "1 \<le> f_deal_score d \<and> f_deal_score d \<le> 10
      \<and> f_urgency d = flight_determine_urgency (f_deal_score d) (f_price d)"
  proof cases
    case 1
    from get_mock_deals_fields(1,2)[OF 1] show ?thesis
      by (simp add: flight_determine_urgency_def)
  next
    case 2
    from parse_amadeus_offer_fields(1,2)[OF 2] flight_score_range show ?thesis
      by simp
  qed
  then show "1 \<le> f_deal_score d" "f_deal_score d \<le> 10"
    "f_urgency d = flight_determine_urgency (f_deal_score d) (f_price d)" by simp_all
next
  fix out h assume "search_hotels ext hw hparams = Inr out" "h \<in> set out"
  then have "h \<in> set (gathered_hotels ext hw hparams)"
    using unique_sorted_top10_subset unfolding search_hotels_def by blast
  then consider "h \<in> set (get_mock_hotels ext hparams)"
    | offer where "parse_amadeus_hotel ext hparams offer = Inr h"
    using gathered_hotels_mem by blast
  then have "1 \<le> h_deal_score h \<and> h_deal_score h \<le> 10
           \<and> h_urgency h = hotel_determine_urgency (h_deal_score h)"
  proof cases
    case 1
    from get_mock_hotels_fields[OF 1] show ?thesis
      by (simp add: hotel_determine_urgency_def)
  next
    case 2
    from parse_amadeus_hotel_fields(1,2)[OF 2] hotel_score_range show ?thesis
      by simp
  qed
  then show "1 \<le> h_deal_score h" "h_deal_score h \<le> 10"
    "h_urgency h = hotel_determine_urgency (h_deal_score h)" by simp_all
qed

theorem default_search_scores_witness:
  "map f_deal_score (search_flights example_externals cheap_flight_provider 0 jfk_cdg_business)
     = [9]
   \<and> map f_urgency (search_flights example_externals cheap_flight_provider 0 jfk_cdg_business)
     = [CRITICAL]
   \<and> flight_determine_urgency 9 1500 = CRITICAL"
proof -
  have a: "map f_deal_score
             (search_flights example_externals cheap_flight_provider 0 jfk_cdg_business) = [9]"
    by code_simp
  have b: "map f_urgency
             (search_flights example_externals cheap_flight_provider 0 jfk_cdg_business)
           = [CRITICAL]"
    by code_simp
  have c: "flight_determine_urgency 9 1500 = CRITICAL"
    by (simp add: flight_determine_urgency_def)
  from default_search_scores_in_range
         [of example_externals cheap_flight_provider 0 jfk_cdg_business]
  have "\<forall>d \<in> set (search_flights example_externals cheap_flight_provider 0 jfk_cdg_business).
          1 \<le> f_deal_score d \<and> f_deal_score d \<le> 10
          \<and> f_urgency d = flight_determine_urgency (f_deal_score d) (f_price d)"
    by (rule conjunct1)
  with a b c show ?thesis by blast
qed

section \<open>The webhook receiver\<close>

lemma and_then_Inl:
  "and_then m f = Inl e \<longleftrightarrow> m = Inl e \<or> (\<exists>x. m = Inr x \<and> f x = Inl e)"
  by (cases m) (simp_all add: and_then_def)

lemma py_get_error: "py_get v k d = Inl e \<Longrightarrow> e \<in> plain_errors"
  by (cases v) (auto simp: plain_errors_def)

lemma py_item0_error: "py_item0 v = Inl e \<Longrightarrow> e \<in> plain_errors"
  by (induction v rule: py_item0.induct) (auto simp: plain_errors_def)

lemma py_iter_error: "py_iter v = Inl e \<Longrightarrow> e \<in> plain_errors"
  by (cases v) (auto simp: plain_errors_def)

lemma extract_messages_error: "extract_messages payload = Inl e \<Longrightarrow> e \<in> plain_errors"
  unfolding extract_messages_def and_then_Inl
  by (auto dest: py_get_error py_item0_error py_iter_error)

lemma button_action_plain:
  "LogInvalidSignature \<notin> set (fst (button_action b))"
  "snd (button_action b) = Some e \<Longrightarrow> e \<in> plain_errors"
  by (auto simp: button_action_def plain_errors_def split: json.splits if_splits)

lemma handle_message_plain:
  "LogInvalidSignature \<notin> set (fst (handle_message m))"
  "snd (handle_message m) = Some e \<Longrightarrow> e \<in> plain_errors"
  unfolding handle_message_def
  by (auto simp: and_then_Inl button_action_plain split: sum.splits if_splits
           dest: py_get_error)

lemma handle_messages_plain:
  "LogInvalidSignature \<notin> set (fst (handle_messages ms))
   \<and> (\<forall>e. snd (handle_messages ms) = Some e \<longrightarrow> e \<in> plain_errors)"
proof (induction ms)
  case Nil
  then show ?case by simp
next
  case (Cons m ms)
  obtain logged r where hm: "handle_message m = (logged, r)" by (cases "handle_message m")
  with handle_message_plain[of m] have
    "LogInvalidSignature \<notin> set logged" "\<forall>e. r = Some e \<longrightarrow> e \<in> plain_errors"
    by auto
  with Cons hm show ?case by (cases r) auto
qed

lemma handle_status_plain:
  "LogInvalidSignature \<notin> set (fst (handle_status st))"
  "snd (handle_status st) = Some e \<Longrightarrow> e \<in> plain_errors"
  unfolding handle_status_def
  by (auto simp: and_then_Inl split: sum.splits dest: py_get_error)

lemma handle_statuses_plain:
  "LogInvalidSignature \<notin> set (fst (handle_statuses sts))
   \<and> (\<forall>e. snd (handle_statuses sts) = Some e \<longrightarrow> e \<in> plain_errors)"
proof (induction sts)
  case Nil
  then show ?case by simp
next
  case (Cons st sts)
  obtain logged r where hs: "handle_status st = (logged, r)" by (cases "handle_status st")
  with handle_status_plain[of st] have
    "LogInvalidSignature \<notin> set logged" "\<forall>e. r = Some e \<longrightarrow> e \<in> plain_errors"
    by auto
  with Cons hs show ?case by (cases r) auto
qed

lemma process_payload_plain:
  "LogInvalidSignature \<notin> set (fst (process_payload lib body_str))
   \<and> (\<forall>e. snd (process_payload lib body_str) = Inl e \<longrightarrow> e \<in> plain_errors)"
proof (cases "json_loads lib body_str")
  case None
  then show ?thesis by (simp add: process_payload_def plain_errors_def)
next
  case (Some payload)
  show ?thesis
  proof (cases "extract_messages payload")
    case (Inl e)
    with Some extract_messages_error[OF Inl] show ?thesis
      by (simp add: process_payload_def)
  next
    case (Inr vi)
    obtain v items where vi: "vi = (v, items)" by (cases vi)
    obtain log1 r1 where m: "handle_messages items = (log1, r1)"
      by (cases "handle_messages items")
    from handle_messages_plain[of items] m have m1:
      "LogInvalidSignature \<notin> set log1" "\<forall>e. r1 = Some e \<longrightarrow> e \<in> plain_errors" by auto
    show ?thesis
    proof (cases r1)
      case (Some e)
      with m1 m Inr vi \<open>json_loads lib body_str = Some payload\<close> show ?thesis
        by (simp add: process_payload_def)
    next
      case None
      show ?thesis
      proof (cases "and_then (py_get v (lit ''statuses'') (JArr [])) py_iter")
        case (Inl e)
        then have "e \<in> plain_errors"
          by (auto simp: and_then_Inl dest: py_get_error py_iter_error)
        with Inl m1 m Inr vi None \<open>json_loads lib body_str = Some payload\<close> show ?thesis
          by (simp add: process_payload_def)
      next
        case (Inr sts)
        obtain log2 r2 where s: "handle_statuses sts = (log2, r2)"
          by (cases "handle_statuses sts")
        from handle_statuses_plain[of sts] s have s1:
          "LogInvalidSignature \<notin> set log2" "\<forall>e. r2 = Some e \<longrightarrow> e \<in> plain_errors" by auto
        with Inr m1 m \<open>extract_messages payload = Inr vi\<close> vi None s
             \<open>json_loads lib body_str = Some payload\<close>
        show ?thesis
          by (cases r2) (simp_all add: process_payload_def)
      qed
    qed
  qed
qed

lemma http_exception_not_plain: "HTTPException code detail \<notin> plain_errors"
  by (simp add: plain_errors_def)

lemma unsigned_skips_the_check:
  assumes "header_signature request = []"
  shows "whatsapp_incoming_try lib app_secret request =
           (case utf8_decode lib (raw_body request) of
              None \<Rightarrow> ([], Inl UnicodeDecodeError)
            | Some body_str \<Rightarrow> process_payload lib body_str)"
  using assms by (simp add: whatsapp_incoming_try_def Let_def split: option.splits)

lemma rejection_needs_a_mismatch:
  assumes "(\<exists>code detail. snd (whatsapp_incoming_try lib app_secret request)
                             = Inl (HTTPException code detail))
           \<or> LogInvalidSignature \<in> set (fst (whatsapp_incoming_try lib app_secret request))"
  shows "app_secret \<noteq> [] \<and> header_signature request \<noteq> []
         \<and> header_signature request \<noteq> expected_signature lib app_secret request"
proof (cases "utf8_decode lib (raw_body request)")
  case None
  with assms show ?thesis by (auto simp: whatsapp_incoming_try_def)
next
  case (Some body_str)
  have pp: "\<not> ((\<exists>code detail. snd (process_payload lib body_str) = Inl (HTTPException code detail))
            \<or> LogInvalidSignature \<in> set (fst (process_payload lib body_str)))"
    using process_payload_plain[of lib body_str] http_exception_not_plain by blast
  show ?thesis
  proof (cases "app_secret \<noteq> [] \<and> header_signature request \<noteq> []")
    case False
    with assms Some pp show ?thesis
      by (auto simp: whatsapp_incoming_try_def Let_def)
  next
    case True
    show ?thesis
    proof (cases "compare_digest (header_signature request)
                    (expected_signature lib app_secret request)")
      case (Inl e)
      then have "e = TypeError" by (auto simp: compare_digest_def split: if_splits)
      with assms Some True Inl show ?thesis
        by (auto simp: whatsapp_incoming_try_def Let_def)
    next
      case (Inr matches)
      show ?thesis
      proof (cases matches)
        case True
        with assms Some \<open>app_secret \<noteq> [] \<and> header_signature request \<noteq> []\<close> Inr pp
        show ?thesis by (auto simp: whatsapp_incoming_try_def Let_def)
      next
        case False
        with Inr have "header_signature request \<noteq> expected_signature lib app_secret request"
          by (auto simp: compare_digest_def split: if_splits)
        with \<open>app_secret \<noteq> [] \<and> header_signature request \<noteq> []\<close> show ?thesis by simp
      qed
    qed
  qed
qed

lemma expected_signature_update [simp]:
  "expected_signature lib app_secret (request\<lparr>hub_signature_256 := s\<rparr>)
   = expected_signature lib app_secret request"
  by (simp add: expected_signature_def)

lemma valid_signature_is_processed:
  assumes "list_all is_ascii (expected_signature lib app_secret request)"
    and "hub_signature_256 request = Some (expected_signature lib app_secret request)"
  shows "whatsapp_incoming_try lib app_secret request =
           (case utf8_decode lib (raw_body request) of
              None \<Rightarrow> ([], Inl UnicodeDecodeError)
            | Some body_str \<Rightarrow> process_payload lib body_str)"
  using assms
  by (simp add: whatsapp_incoming_try_def Let_def header_signature_def compare_digest_def
           split: option.splits)

lemma mismatch_is_not_processed:
  assumes "app_secret \<noteq> []" and "header_signature request \<noteq> []"
    and "header_signature request \<noteq> expected_signature lib app_secret request"
  shows "whatsapp_incoming_try lib app_secret request = ([], Inl UnicodeDecodeError)
       \<or> whatsapp_incoming_try lib app_secret request = ([], Inl TypeError)
       \<or> whatsapp_incoming_try lib app_secret request =
            ([LogInvalidSignature], Inl (HTTPException 401 (lit ''Invalid signature'')))"
  using assms
  by (auto simp: whatsapp_incoming_try_def Let_def compare_digest_def split: option.splits)

text \<open>C9: when the X-Hub-Signature-256 header is absent or empty the signature check is
  skipped, whether or not the app secret is configured: the body is decoded, parsed and
  processed exactly as for a request that carries the valid signature. The receiver
  rejects a request (logs an invalid signature, raises the 401 exception) only when the
  secret is configured and the header is present, not empty, and different from the
  expected signature.\<close>

theorem missing_signature_skips_the_check:
  "(header_signature request = [] \<longrightarrow>
      whatsapp_incoming_try lib app_secret request =
        (case utf8_decode lib (raw_body request) of
           None \<Rightarrow> ([], Inl UnicodeDecodeError)
         | Some body_str \<Rightarrow> process_payload lib body_str))
   \<and> (header_signature request = []
        \<and> list_all is_ascii (expected_signature lib app_secret request) \<longrightarrow>
      whatsapp_incoming lib app_secret request =
        whatsapp_incoming lib app_secret
          (request\<lparr>hub_signature_256 := Some (expected_signature lib app_secret request)\<rparr>))
   \<and> ((\<exists>code detail. snd (whatsapp_incoming_try lib app_secret request)
                           = Inl (HTTPException code detail))
        \<or> LogInvalidSignature \<in> set (fst (whatsapp_incoming_try lib app_secret request)) \<longrightarrow>
      app_secret \<noteq> [] \<and> header_signature request \<noteq> []
      \<and> header_signature request \<noteq> expected_signature lib app_secret request)"
proof (intro conjI impI)
  assume "header_signature request = []"
  then show "whatsapp_incoming_try lib app_secret request =
        (case utf8_decode lib (raw_body request) of
           None \<Rightarrow> ([], Inl UnicodeDecodeError)
         | Some body_str \<Rightarrow> process_payload lib body_str)"
    by (rule unsigned_skips_the_check)
next
  let ?signed = "request\<lparr>hub_signature_256 := Some (expected_signature lib app_secret request)\<rparr>"
  assume a: "header_signature request = []
             \<and> list_all is_ascii (expected_signature lib app_secret request)"
  then have "whatsapp_incoming_try lib app_secret ?signed =
        (case utf8_decode lib (raw_body ?signed) of
           None \<Rightarrow> ([], Inl UnicodeDecodeError)
         | Some body_str \<Rightarrow> process_payload lib body_str)"
    by (intro valid_signature_is_processed) simp_all
  moreover from a have "whatsapp_incoming_try lib app_secret request =
        (case utf8_decode lib (raw_body request) of
           None \<Rightarrow> ([], Inl UnicodeDecodeError)
         | Some body_str \<Rightarrow> process_payload lib body_str)"
    by (intro unsigned_skips_the_check) simp
  ultimately have "whatsapp_incoming_try lib app_secret request
                   = whatsapp_incoming_try lib app_secret ?signed"
    by simp
  then show "whatsapp_incoming lib app_secret request = whatsapp_incoming lib app_secret ?signed"
    by (simp add: whatsapp_incoming_def)
next
  assume "(\<exists>code detail. snd (whatsapp_incoming_try lib app_secret request)
                           = Inl (HTTPException code detail))
        \<or> LogInvalidSignature \<in> set (fst (whatsapp_incoming_try lib app_secret request))"
  then have "app_secret \<noteq> [] \<and> header_signature request \<noteq> []
      \<and> header_signature request \<noteq> expected_signature lib app_secret request"
    by (rule rejection_needs_a_mismatch)
  then show "app_secret \<noteq> []" "header_signature request \<noteq> []"
    "header_signature request \<noteq> expected_signature lib app_secret request"
    by simp_all
qed

theorem missing_signature_witness:
  "header_signature unsigned_request = []
   \<and> whatsapp_incoming_try example_webhook_library (lit ''secret'') unsigned_request
       = ([LogWebhookReceived], Inr (JObj [((lit ''status''), JStr (lit ''received''))]))
   \<and> snd (whatsapp_incoming_try example_webhook_library (lit ''secret'') missigned_request)
       = Inl (HTTPException 401 (lit ''Invalid signature''))
   \<and> header_signature missigned_request
       \<noteq> expected_signature example_webhook_library (lit ''secret'') missigned_request"
proof -
  have h: "header_signature unsigned_request = []"
    by (simp add: header_signature_def unsigned_request_def)
  have p: "process_payload example_webhook_library (lit ''{}'')
           = ([LogWebhookReceived], Inr (JObj [((lit ''status''), JStr (lit ''received''))]))"
    by (simp add: process_payload_def example_webhook_library_def extract_messages_def
                  and_then_def)
  have d: "utf8_decode example_webhook_library (raw_body unsigned_request) = Some (lit ''{}'')"
    by (simp add: example_webhook_library_def unsigned_request_def)
  have m: "snd (whatsapp_incoming_try example_webhook_library (lit ''secret'') missigned_request)
           = Inl (HTTPException 401 (lit ''Invalid signature''))"
    by (simp add: whatsapp_incoming_try_def example_webhook_library_def missigned_request_def
                  header_signature_def expected_signature_def compare_digest_def is_ascii_def
                  lit_def)
  from missing_signature_skips_the_check
         [of unsigned_request example_webhook_library "(lit ''secret'')"] h d p
  have 1: "whatsapp_incoming_try example_webhook_library (lit ''secret'') unsigned_request
       = ([LogWebhookReceived], Inr (JObj [((lit ''status''), JStr (lit ''received''))]))"
    by simp
  from missing_signature_skips_the_check
         [of missigned_request example_webhook_library "(lit ''secret'')"] m
  have 2: "header_signature missigned_request
       \<noteq> expected_signature example_webhook_library (lit ''secret'') missigned_request"
    by blast
  from h 1 m 2 show ?thesis by blast
qed

text \<open>C5 (as amended): when the app secret is configured and the request carries a
  non-empty X-Hub-Signature-256 header that differs from \<open>sha256=\<close> followed by the hex
  HMAC-SHA256 of the secret over the raw body, the payload is neither parsed nor processed:
  the receiver does not log a received webhook and does not answer \<open>received\<close>. For a body
  that decodes and an ASCII header it logs the invalid signature and raises the 401
  exception before the payload is parsed. When the secret is not configured, or the header
  is absent or empty, the check is skipped: the body is decoded and the payload
  processed.\<close>

theorem signature_mismatch_is_not_processed:
  "(app_secret \<noteq> [] \<and> header_signature request \<noteq> []
      \<and> header_signature request \<noteq> expected_signature lib app_secret request \<longrightarrow>
        \<not> processed (fst (whatsapp_incoming lib app_secret request))
        \<and> snd (whatsapp_incoming lib app_secret request)
            \<noteq> Inr (JObj [(lit ''status'', JStr (lit ''received''))])
        \<and> (utf8_decode lib (raw_body request) \<noteq> None
             \<and> list_all is_ascii (header_signature request)
             \<and> list_all is_ascii (expected_signature lib app_secret request) \<longrightarrow>
           whatsapp_incoming_try lib app_secret request =
             ([LogInvalidSignature], Inl (HTTPException 401 (lit ''Invalid signature'')))))
   \<and> (app_secret = [] \<or> header_signature request = [] \<longrightarrow>
        whatsapp_incoming_try lib app_secret request =
          (case utf8_decode lib (raw_body request) of
             None \<Rightarrow> ([], Inl UnicodeDecodeError)
           | Some body_str \<Rightarrow> process_payload lib body_str))"
  (is "?mismatch \<and> ?skipped")
proof -
  have a: ?mismatch
  proof (rule impI)
    assume h: "app_secret \<noteq> [] \<and> header_signature request \<noteq> []
      \<and> header_signature request \<noteq> expected_signature lib app_secret request"
    then have h1: "app_secret \<noteq> []" and h2: "header_signature request \<noteq> []"
      and h3: "header_signature request \<noteq> expected_signature lib app_secret request"
      by simp_all
    from mismatch_is_not_processed[OF h1 h2 h3]
    have p: "\<not> processed (fst (whatsapp_incoming lib app_secret request))
       \<and> snd (whatsapp_incoming lib app_secret request)
           \<noteq> Inr (JObj [(lit ''status'', JStr (lit ''received''))])"
      by (auto simp: whatsapp_incoming_def processed_def)
    have q: "whatsapp_incoming_try lib app_secret request =
            ([LogInvalidSignature], Inl (HTTPException 401 (lit ''Invalid signature'')))"
      if "utf8_decode lib (raw_body request) \<noteq> None
            \<and> list_all is_ascii (header_signature request)
            \<and> list_all is_ascii (expected_signature lib app_secret request)"
      using that h1 h2 h3
      by (auto simp: whatsapp_incoming_try_def Let_def compare_digest_def)
    from p q show "\<not> processed (fst (whatsapp_incoming lib app_secret request))
        \<and> snd (whatsapp_incoming lib app_secret request)
            \<noteq> Inr (JObj [(lit ''status'', JStr (lit ''received''))])
        \<and> (utf8_decode lib (raw_body request) \<noteq> None
             \<and> list_all is_ascii (header_signature request)
             \<and> list_all is_ascii (expected_signature lib app_secret request) \<longrightarrow>
           whatsapp_incoming_try lib app_secret request =
             ([LogInvalidSignature], Inl (HTTPException 401 (lit ''Invalid signature''))))"
      by blast
  qed
  have b: ?skipped
    by (auto simp: whatsapp_incoming_try_def Let_def split: option.splits)
  from a b show ?thesis by (rule conjI)
qed

theorem signature_mismatch_witness:
  "lit ''secret'' \<noteq> [] \<and> header_signature missigned_request \<noteq> []
   \<and> header_signature missigned_request
       \<noteq> expected_signature example_webhook_library (lit ''secret'') missigned_request
   \<and> \<not> processed (fst (whatsapp_incoming example_webhook_library (lit ''secret'') missigned_request))
   \<and> whatsapp_incoming_try example_webhook_library (lit ''secret'') missigned_request
       = ([LogInvalidSignature], Inl (HTTPException 401 (lit ''Invalid signature'')))
   \<and> whatsapp_incoming_try example_webhook_library [] missigned_request
       = ([LogWebhookReceived], Inr (JObj [(lit ''status'', JStr (lit ''received''))]))"
proof -
  have a: "lit ''secret'' \<noteq> []" by simp
  have b: "header_signature missigned_request \<noteq> []"
    by (simp add: header_signature_def missigned_request_def)
  have c: "header_signature missigned_request
       \<noteq> expected_signature example_webhook_library (lit ''secret'') missigned_request"
    by (simp add: header_signature_def missigned_request_def expected_signature_def
                  example_webhook_library_def lit_append)
  have d: "utf8_decode example_webhook_library (raw_body missigned_request) \<noteq> None"
    by (simp add: example_webhook_library_def)
  have e: "list_all is_ascii (header_signature missigned_request)"
    by (simp add: header_signature_def missigned_request_def is_ascii_def lit_def)
  have f: "list_all is_ascii
             (expected_signature example_webhook_library (lit ''secret'') missigned_request)"
    by (simp add: expected_signature_def example_webhook_library_def is_ascii_def lit_def)
  have p: "process_payload example_webhook_library (lit ''{}'')
           = ([LogWebhookReceived], Inr (JObj [(lit ''status'', JStr (lit ''received''))]))"
    by (simp add: process_payload_def example_webhook_library_def extract_messages_def
                  and_then_def)
  have d2: "utf8_decode example_webhook_library (raw_body missigned_request)
            = Some (lit ''{}'')"
    by (simp add: example_webhook_library_def missigned_request_def)
  from signature_mismatch_is_not_processed
         [where app_secret = "lit ''secret''" and request = missigned_request
            and lib = example_webhook_library]
  have "lit ''secret'' \<noteq> [] \<and> header_signature missigned_request \<noteq> []
      \<and> header_signature missigned_request
          \<noteq> expected_signature example_webhook_library (lit ''secret'') missigned_request \<longrightarrow>
        \<not> processed (fst (whatsapp_incoming example_webhook_library (lit ''secret'')
                           missigned_request))
        \<and> snd (whatsapp_incoming example_webhook_library (lit ''secret'') missigned_request)
            \<noteq> Inr (JObj [(lit ''status'', JStr (lit ''received''))])
        \<and> (utf8_decode example_webhook_library (raw_body missigned_request) \<noteq> None
             \<and> list_all is_ascii (header_signature missigned_request)
             \<and> list_all is_ascii
                  (expected_signature example_webhook_library (lit ''secret'')
                     missigned_request) \<longrightarrow>
           whatsapp_incoming_try example_webhook_library (lit ''secret'') missigned_request =
             ([LogInvalidSignature], Inl (HTTPException 401 (lit ''Invalid signature''))))"
    by (rule conjunct1)
  with a b c d e f have 1:
    "\<not> processed (fst (whatsapp_incoming example_webhook_library (lit ''secret'')
                       missigned_request))
     \<and> whatsapp_incoming_try example_webhook_library (lit ''secret'') missigned_request =
             ([LogInvalidSignature], Inl (HTTPException 401 (lit ''Invalid signature'')))"
    by blast
  from signature_mismatch_is_not_processed
         [where app_secret = "[]" and request = missigned_request
            and lib = example_webhook_library]
  have "[] = ([]::str) \<or> header_signature missigned_request = [] \<longrightarrow>
        whatsapp_incoming_try example_webhook_library [] missigned_request =
          (case utf8_decode example_webhook_library (raw_body missigned_request) of
             None \<Rightarrow> ([], Inl UnicodeDecodeError)
           | Some body_str \<Rightarrow> process_payload example_webhook_library body_str)"
    by (rule conjunct2)
  then have "whatsapp_incoming_try example_webhook_library [] missigned_request =
          (case utf8_decode example_webhook_library (raw_body missigned_request) of
             None \<Rightarrow> ([], Inl UnicodeDecodeError)
           | Some body_str \<Rightarrow> process_payload example_webhook_library body_str)"
    by simp
  with d2 p have 2: "whatsapp_incoming_try example_webhook_library [] missigned_request
       = ([LogWebhookReceived], Inr (JObj [(lit ''status'', JStr (lit ''received''))]))"
    by simp
  from a b c 1 2 show ?thesis by blast
qed

theorem unsigned_request_counterexample:
  "header_signature unsigned_request = []
   \<and> whatsapp_incoming example_webhook_library (lit ''secret'') unsigned_request
       = ([LogWebhookReceived], Inr (JObj [((lit ''status''), JStr (lit ''received''))]))
   \<and> response_status
        (snd (whatsapp_incoming example_webhook_library (lit ''secret'') unsigned_request)) = 200"
  by (simp add: whatsapp_incoming_def whatsapp_incoming_try_def header_signature_def
                unsigned_request_def example_webhook_library_def process_payload_def
                extract_messages_def and_then_def response_status_def)

text \<open>The handler catches every exception of its body, the 401 exception included, and
  returns a dictionary: whatever the request, the status of the response is 200.\<close>

theorem webhook_always_answers_200:
  "\<exists>body. snd (whatsapp_incoming lib app_secret request) = Inr body
   \<and> response_status (snd (whatsapp_incoming lib app_secret request)) = 200"
  by (cases "whatsapp_incoming_try lib app_secret request";
      cases "snd (whatsapp_incoming_try lib app_secret request)")
     (auto simp: whatsapp_incoming_def response_status_def)

text \<open>A provider hotel whose name is not a str passes the parse and makes the
  deduplication raise: the search raises instead of returning results.\<close>

theorem nameless_hotel_makes_search_raise:
  "search_hotels example_externals nameless_hotel_provider paris_three_nights
     = Inl AttributeError"
  by code_simp

end
